theory Spec2Isabelle
  imports Complex_Main
begin

section \<open>JavaScript values\<close>

text \<open>
  The storefront is written in JavaScript. A value that reaches one of the modelled
  functions is a \<open>jsval\<close>: \<open>JUndefined\<close> is what reading an absent property gives,
  an object is the list of its own properties. A number is modelled as the real it stands
  for (no NaN, no infinities: a JSON body cannot carry them), a string as a list of
  characters.
\<close>

datatype jsval =
    JUndefined
  | JNull
  | JBool bool
  | JNum real
  | JStr string
  | JArr "jsval list"
  | JObj "(string \<times> jsval) list"

text \<open>The truthiness test behind \<open>!x\<close>, \<open>x ? a : b\<close> and \<open>x || y\<close>.\<close>

fun truthy :: "jsval \<Rightarrow> bool" where
  "truthy JUndefined = False"
| "truthy JNull = False"
| "truthy (JBool b) = b"
| "truthy (JNum n) = (n \<noteq> 0)"
| "truthy (JStr s) = (s \<noteq> [])"
| "truthy (JArr xs) = True"
| "truthy (JObj kvs) = True"

section \<open>utils.js: sanitizeInput\<close>

text \<open>
  \<^verbatim>\<open>const map = {'&': '&amp;', '<': '&lt;', '>': '&gt;', '"': '&quot;', "'": '&#x27;', '/': '&#x2F;'};\<close>
  and the callback of \<^verbatim>\<open>input.replace(/[&<>"'/]/g, (char) => map[char])\<close>, extended
  by the identity on the characters the regular expression does not match.
\<close>

definition escapeChar :: "char \<Rightarrow> string" where
  "escapeChar c =
     (if c = CHR ''&'' then ''&amp;''
      else if c = CHR ''<'' then ''&lt;''
      else if c = CHR ''>'' then ''&gt;''
      else if c = CHR 0x22 then ''&quot;''
      else if c = CHR 0x27 then ''&#x27;''
      else if c = CHR ''/'' then ''&#x2F;''
      else [c])"

fun sanitizeInput :: "jsval \<Rightarrow> string" where
  "sanitizeInput (JStr input) = concat (map escapeChar input)"
| "sanitizeInput v = []"

section \<open>api/submit-order.js: the rate limiter\<close>

text \<open>
  \<open>rateLimitStore\<close> is a \<open>Map\<close> from the client address to the array of recorded
  instants (milliseconds, \<open>Date.now()\<close>). The clock is an argument of the model.
\<close>

type_synonym rateLimitStore = "string \<rightharpoonup> int list"

definition windowMs :: int where
  "windowMs = 60 * 60 * 1000"

definition maxRequests :: nat where
  "maxRequests = 5"

definition isRateLimited :: "string \<Rightarrow> int \<Rightarrow> rateLimitStore \<Rightarrow> bool \<times> rateLimitStore" where
  "isRateLimited ip now store =
     (let store1 = (if store ip = None then store(ip \<mapsto> []) else store);
          requests = (case store1 ip of None \<Rightarrow> [] | Some r \<Rightarrow> r);
          recentRequests = filter (\<lambda>timestamp. now - timestamp < windowMs) requests
      in if length recentRequests \<ge> maxRequests then (True, store1)
         else (False, store1(ip \<mapsto> recentRequests @ [now])))"

text \<open>The instants recorded for an address; an address never seen has none.\<close>

definition recorded :: "rateLimitStore \<Rightarrow> string \<Rightarrow> int list" where
  "recorded store ip = (case store ip of None \<Rightarrow> [] | Some r \<Rightarrow> r)"

text \<open>
  A run of the limiter: the checks arrive one after the other, each with its address and
  its instant; the result is the list of answers (\<open>True\<close>: blocked) and the final table.
\<close>

fun run_checks :: "(string \<times> int) list \<Rightarrow> rateLimitStore \<Rightarrow> bool list \<times> rateLimitStore" where
  "run_checks [] store = ([], store)"
| "run_checks ((ip, now) # cs) store =
     (case isRateLimited ip now store of
        (b, store') \<Rightarrow> (case run_checks cs store' of (bs, store'') \<Rightarrow> (b # bs, store'')))"

text \<open>The instants of the checks of \<open>ip\<close> that were accepted, in the order of the run.\<close>

fun accepted :: "string \<Rightarrow> (string \<times> int) list \<Rightarrow> bool list \<Rightarrow> int list" where
  "accepted ip ((i, t) # cs) (b # bs) =
     (if i = ip \<and> \<not> b then t # accepted ip cs bs else accepted ip cs bs)"
| "accepted ip cs bs = []"

section \<open>js/config.js: the configuration the cart and the checkout read\<close>

record config =
  DELIVERY_CHARGE :: real
  MIN_ORDER_AMOUNT :: real
  DELIVERY_SLOTS :: "string list"

definition CONFIG :: config where
  "CONFIG = \<lparr> DELIVERY_CHARGE = 0, MIN_ORDER_AMOUNT = 50,
               DELIVERY_SLOTS = [''Morning (7 AM - 10 AM)'', ''Afternoon (12 PM - 3 PM)'',
                                 ''Evening (5 PM - 8 PM)''] \<rparr>"

section \<open>The arithmetic of the engine\<close>

text \<open>
  A JavaScript number is modelled as the real it stands for. The \<open>*\<close> and \<open>+\<close> of
  the engine give the exact product and sum rounded to a double (\<open>0.1 * 3\<close> is not
  \<open>0.3\<close>); the two operations are arguments of the model, and the totals are proved
  for every pair of operations, with no law assumed of them. \<open>exact_arith\<close> is the pair
  that does not round; the examples use it on whole amounts, where the products and sums
  are small whole numbers.
\<close>

record arith =
  num_mul :: "real \<Rightarrow> real \<Rightarrow> real"
  num_add :: "real \<Rightarrow> real \<Rightarrow> real"

definition exact_arith :: arith where
  "exact_arith = \<lparr> num_mul = (*), num_add = (+) \<rparr>"

section \<open>js/products.js and js/cart.js: the cart\<close>

text \<open>
  A product of the catalog, with the fields the cart and the checkout read. The catalog is
  the array \<open>fetchProducts\<close> resolves to; the functions of this section take it as an
  argument, and the rejection of \<open>fetchProducts\<close> is a branch of their callers
  (\<open>addToCart\<close>, \<open>processCheckout\<close>).
\<close>

record product =
  id_p :: string
  nameEnglish :: string
  nameHindi :: string
  price :: real
  unit_p :: string
  inStock :: bool

record cart_item =
  productId :: string
  quantity :: real
  addedAt :: string


text \<open>\<^verbatim>\<open>products.find(p => p.id === productId) || null\<close>\<close>

definition getProductById :: "product list \<Rightarrow> string \<Rightarrow> product option" where
  "getProductById products pid = find (\<lambda>p. id_p p = pid) products"

text \<open>An element of the array \<open>getCartWithDetails\<close> returns: \<^verbatim>\<open>{...item, product, subtotal}\<close>.\<close>

record cart_line =
  cl_item :: cart_item
  cl_product :: product
  cl_subtotal :: real

fun getCartWithDetails :: "arith \<Rightarrow> product list \<Rightarrow> cart_item list \<Rightarrow> cart_line list" where
  "getCartWithDetails ar products [] = []"
| "getCartWithDetails ar products (item # cart) =
     (case getProductById products (productId item) of
        Some p \<Rightarrow> \<lparr> cl_item = item, cl_product = p,
                     cl_subtotal = num_mul ar (price p) (quantity item) \<rparr>
                    # getCartWithDetails ar products cart
      | None \<Rightarrow> getCartWithDetails ar products cart)"

text \<open>\<^verbatim>\<open>cartItems.reduce((sum, item) => sum + item.subtotal, 0)\<close>\<close>

definition calculateSubtotal :: "arith \<Rightarrow> product list \<Rightarrow> cart_item list \<Rightarrow> real" where
  "calculateSubtotal ar products cart =
     foldl (\<lambda>sum item. num_add ar sum (cl_subtotal item)) 0 (getCartWithDetails ar products cart)"

definition calculateDeliveryCharge :: "config \<Rightarrow> real \<Rightarrow> real" where
  "calculateDeliveryCharge cfg subtotal =
     (if subtotal \<ge> MIN_ORDER_AMOUNT cfg then DELIVERY_CHARGE cfg else DELIVERY_CHARGE cfg)"

record totals =
  subtotal :: real
  delivery :: real
  total :: real

definition calculateTotal :: "arith \<Rightarrow> config \<Rightarrow> product list \<Rightarrow> cart_item list \<Rightarrow> totals" where
  "calculateTotal ar cfg products cart =
     (let subtotal = calculateSubtotal ar products cart;
          delivery = calculateDeliveryCharge cfg subtotal;
          total = num_add ar subtotal delivery
      in \<lparr> subtotal = subtotal, delivery = delivery, total = total \<rparr>)"

text \<open>
  The cart is the array kept in \<open>localStorage\<close>. \<open>saveCart\<close> writes it back;
  \<open>saveToStorage\<close> catches a failing write and returns \<open>false\<close>, and the stored
  cart is then the old one. Whether the write goes through is the argument \<open>ok\<close>.
\<close>

definition saveCart :: "bool \<Rightarrow> cart_item list \<Rightarrow> cart_item list \<Rightarrow> bool \<times> cart_item list" where
  "saveCart ok stored cart = (if ok then (True, cart) else (False, stored))"

text \<open>
  \<^verbatim>\<open>cart.find(item => item.productId === productId)\<close> gives the first item of that
  product, and the assignment to its \<open>quantity\<close> changes it in the array.
\<close>

fun update_first :: "string \<Rightarrow> (real \<Rightarrow> real) \<Rightarrow> cart_item list \<Rightarrow> cart_item list" where
  "update_first pid f [] = []"
| "update_first pid f (item # cart) =
     (if productId item = pid then item\<lparr>quantity := f (quantity item)\<rparr> # cart
      else item # update_first pid f cart)"

text \<open>
  \<open>addToCart\<close>: \<open>fetched\<close> is what \<open>fetchProducts\<close> gives (\<open>None\<close>: it rejects, and
  the \<open>catch\<close> returns \<open>false\<close>), \<open>now\<close> the text of \<open>new Date().toISOString()\<close>.
\<close>

definition addToCart ::
  "product list option \<Rightarrow> bool \<Rightarrow> string \<Rightarrow> cart_item list \<Rightarrow> string \<Rightarrow> real
     \<Rightarrow> bool \<times> cart_item list" where
  "addToCart fetched ok now cart pid qty =
     (case fetched of
        None \<Rightarrow> (False, cart)
      | Some products \<Rightarrow>
          (case getProductById products pid of
             None \<Rightarrow> (False, cart)
           | Some p \<Rightarrow>
               if \<not> inStock p then (False, cart)
               else (case find (\<lambda>item. productId item = pid) cart of
                       Some existingItem \<Rightarrow>
                         saveCart ok cart (update_first pid (\<lambda>q. q + qty) cart)
                     | None \<Rightarrow>
                         saveCart ok cart
                           (cart @ [\<lparr> productId = pid, quantity = qty, addedAt = now \<rparr>]))))"

definition removeFromCart :: "bool \<Rightarrow> cart_item list \<Rightarrow> string \<Rightarrow> bool \<times> cart_item list" where
  "removeFromCart ok cart pid =
     (let filteredCart = filter (\<lambda>item. productId item \<noteq> pid) cart
      in if length filteredCart = length cart then (False, cart)
         else saveCart ok cart filteredCart)"

definition updateCartItem ::
  "bool \<Rightarrow> cart_item list \<Rightarrow> string \<Rightarrow> real \<Rightarrow> bool \<times> cart_item list" where
  "updateCartItem ok cart pid newQuantity =
     (if newQuantity < 1 then removeFromCart ok cart pid
      else (case find (\<lambda>item. productId item = pid) cart of
              None \<Rightarrow> (False, cart)
            | Some item \<Rightarrow> saveCart ok cart (update_first pid (\<lambda>q. newQuantity) cart)))"

text \<open>\<open>clearCart\<close> removes the stored array: the next \<open>getCart\<close> gives \<open>[]\<close>.\<close>

definition clearCart :: "cart_item list \<Rightarrow> bool \<times> cart_item list" where
  "clearCart cart = (True, [])"



text \<open>
  The operations of the cart as values, to speak of every sequence of them. An operation
  carries what its call reads besides the cart: the catalog fetched, whether the write to
  \<open>localStorage\<close> goes through, the date.
\<close>

datatype cart_op =
    AddToCart "product list option" bool string string real
  | UpdateCartItem bool string real
  | RemoveFromCart bool string
  | ClearCart

fun apply_cart_op :: "cart_op \<Rightarrow> cart_item list \<Rightarrow> cart_item list" where
  "apply_cart_op (AddToCart fetched ok now pid qty) cart = snd (addToCart fetched ok now cart pid qty)"
| "apply_cart_op (UpdateCartItem ok pid newQuantity) cart = snd (updateCartItem ok cart pid newQuantity)"
| "apply_cart_op (RemoveFromCart ok pid) cart = snd (removeFromCart ok cart pid)"
| "apply_cart_op ClearCart cart = snd (clearCart cart)"

fun run_cart_ops :: "cart_op list \<Rightarrow> cart_item list \<Rightarrow> cart_item list" where
  "run_cart_ops [] cart = cart"
| "run_cart_ops (op # ops) cart = run_cart_ops ops (apply_cart_op op cart)"

text \<open>The quantity an \<open>addToCart\<close> call adds is positive (its default is 1).\<close>

fun adds_positive :: "cart_op \<Rightarrow> bool" where
  "adds_positive (AddToCart fetched ok now pid qty) = (0 < qty)"
| "adds_positive other = True"

text \<open>A catalog and carts for the examples.\<close>

definition ghee :: product where
  "ghee = \<lparr> id_p = ''buffalo-ghee'', nameEnglish = ''Buffalo Ghee'', nameHindi = ''Ghee'',
            price = 800, unit_p = ''kg'', inStock = True \<rparr>"

definition milk :: product where
  "milk = \<lparr> id_p = ''cow-milk'', nameEnglish = ''Cow Milk'', nameHindi = ''Doodh'',
            price = 30, unit_p = ''litre'', inStock = True \<rparr>"

definition ghee_item :: "real \<Rightarrow> cart_item" where
  "ghee_item q = \<lparr> productId = ''buffalo-ghee'', quantity = q, addedAt = ''2026-02-12T10:00:00.000Z'' \<rparr>"

definition milk_item :: "real \<Rightarrow> cart_item" where
  "milk_item q = \<lparr> productId = ''cow-milk'', quantity = q, addedAt = ''2026-02-12T10:01:00.000Z'' \<rparr>"

definition stale_item :: "real \<Rightarrow> cart_item" where
  "stale_item q = \<lparr> productId = ''paneer'', quantity = q, addedAt = ''2026-02-11T09:00:00.000Z'' \<rparr>"

section \<open>api/submit-order.js: validation of the order payload\<close>

text \<open>
  Reading a property. An object gives its own property or \<open>undefined\<close>; numbers,
  strings, booleans and arrays give \<open>undefined\<close> for the names read in this file
  (\<open>orderId\<close>, \<open>userId\<close>, \<open>customer\<close>, \<open>items\<close>, \<open>total\<close>, \<open>name\<close>,
  \<open>phone\<close>, \<open>address\<close>, \<open>email\<close>). Reading a property of \<open>undefined\<close> or
  \<open>null\<close> throws a \<open>TypeError\<close>: that is a branch of the function that reads.
\<close>

datatype js_error = TypeError

fun getProp :: "jsval \<Rightarrow> string \<Rightarrow> jsval" where
  "getProp (JObj kvs) k = (case map_of kvs k of Some v \<Rightarrow> v | None \<Rightarrow> JUndefined)"
| "getProp v k = JUndefined"

fun nullish :: "jsval \<Rightarrow> bool" where
  "nullish JUndefined = True"
| "nullish JNull = True"
| "nullish v = False"

fun isArray :: "jsval \<Rightarrow> bool" where
  "isArray (JArr xs) = True"
| "isArray v = False"

fun elements :: "jsval \<Rightarrow> jsval list" where
  "elements (JArr xs) = xs"
| "elements v = []"

text \<open>\<^verbatim>\<open>typeof orderData.total !== 'number' || orderData.total <= 0\<close>\<close>

fun invalid_total :: "jsval \<Rightarrow> bool" where
  "invalid_total (JNum n) = (n \<le> 0)"
| "invalid_total v = True"

record validation =
  isValid :: bool
  errors :: "string list"

text \<open>
  \<open>validateOrderData\<close>. The first statement reads \<open>orderData.orderId\<close>, which throws
  when \<open>orderData\<close> is \<open>undefined\<close> or \<open>null\<close>; no later read can throw, since
  \<open>orderData.customer\<close> is read into only when it is truthy.
\<close>

definition validateOrderData :: "jsval \<Rightarrow> js_error + validation" where
  "validateOrderData orderData =
     (if nullish orderData then Inl TypeError
      else
        (let errors1 = (if \<not> truthy (getProp orderData ''orderId'') then [''Order ID is required''] else []);
             errors2 = errors1 @ (if \<not> truthy (getProp orderData ''userId'') then [''User ID is required''] else []);
             errors3 = errors2 @ (if \<not> truthy (getProp orderData ''customer'')
                                  then [''Customer details are required''] else []);
             errors4 = errors3 @ (if \<not> truthy (getProp orderData ''items'')
                                     \<or> \<not> isArray (getProp orderData ''items'')
                                     \<or> length (elements (getProp orderData ''items'')) = 0
                                  then [''Order must contain at least one item''] else []);
             errors5 = errors4 @ (if truthy (getProp orderData ''customer'')
                                  then (if \<not> truthy (getProp (getProp orderData ''customer'') ''name'')
                                        then [''Customer name is required''] else [])
                                     @ (if \<not> truthy (getProp (getProp orderData ''customer'') ''phone'')
                                        then [''Customer phone is required''] else [])
                                     @ (if \<not> truthy (getProp (getProp orderData ''customer'') ''address'')
                                        then [''Customer address is required''] else [])
                                  else []);
             errors6 = errors5 @ (if invalid_total (getProp orderData ''total'')
                                  then [''Invalid order total''] else [])
         in Inr \<lparr> isValid = (length errors6 = 0), errors = errors6 \<rparr>))"

section \<open>api/submit-order.js: the notifications and the handler\<close>

text \<open>
  What the mail service does is an argument: whether \<open>RESEND_API_KEY\<close> is set
  (\<open>resend\<close> is not \<open>null\<close>), and whether each \<open>resend.emails.send\<close> resolves.
  Both senders build their message inside their \<open>try\<close>, in template literals. A
  template literal converts each value to a string, and reading \<open>item.productName\<close>
  throws on an item that is \<open>null\<close>; each throw is caught and the sender returns
  \<open>false\<close>. Neither sender ever rejects.
\<close>

record mail_env =
  resend_configured :: bool
  owner_send_ok :: bool
  customer_send_ok :: bool

text \<open>
  Whether the conversion of a value to a string returns. It throws on an object with a
  property \<open>toString\<close> of its own (which, come from JSON, is not a function, while the
  inherited \<open>valueOf\<close> gives the object back); an array joins the conversions of its
  elements; \<open>new Date(value)\<close> throws on the same values.
\<close>

fun renders :: "jsval \<Rightarrow> bool" where
  "renders (JObj kvs) = (map_of kvs ''toString'' = None)"
| "renders (JArr xs) = (\<forall>x \<in> set xs. renders x)"
| "renders v = True"

text \<open>
  \<^verbatim>\<open>orderData.items.map(item => `<li>${item.productName} (${item.quantity}x ${item.unit}) - ${item.subtotal}</li>`)\<close>
\<close>

definition items_render :: "jsval \<Rightarrow> bool" where
  "items_render orderData =
     list_all (\<lambda>item. \<not> nullish item \<and> renders (getProp item ''productName'')
                       \<and> renders (getProp item ''quantity'') \<and> renders (getProp item ''unit'')
                       \<and> renders (getProp item ''subtotal''))
              (elements (getProp orderData ''items''))"

text \<open>The values the message to the owner converts besides the items.\<close>

definition owner_mail_renders :: "jsval \<Rightarrow> bool" where
  "owner_mail_renders orderData =
     (let customer = getProp orderData ''customer'' in
      renders (getProp orderData ''orderId'') \<and> renders (getProp orderData ''createdAt'')
      \<and> renders (getProp customer ''name'') \<and> renders (getProp customer ''phone'')
      \<and> renders (getProp customer ''address'')
      \<and> (if truthy (getProp customer ''landmark'') then renders (getProp customer ''landmark'')
           else True)
      \<and> renders (getProp orderData ''total'') \<and> renders (getProp orderData ''deliverySlot'')
      \<and> (if truthy (getProp orderData ''specialInstructions'')
           then renders (getProp orderData ''specialInstructions'') else True))"

text \<open>The values the confirmation to the customer converts besides the items.\<close>

definition customer_mail_renders :: "jsval \<Rightarrow> bool" where
  "customer_mail_renders orderData =
     (let customer = getProp orderData ''customer'' in
      renders (getProp customer ''name'') \<and> renders (getProp orderData ''orderId'')
      \<and> renders (getProp orderData ''deliverySlot'') \<and> renders (getProp customer ''address'')
      \<and> renders (getProp orderData ''total''))"

definition sendEmailToOwner :: "mail_env \<Rightarrow> jsval \<Rightarrow> bool" where
  "sendEmailToOwner env orderData =
     (if \<not> resend_configured env then False
      else if \<not> items_render orderData \<or> \<not> owner_mail_renders orderData then False
      else owner_send_ok env)"

definition sendEmailConfirmation :: "mail_env \<Rightarrow> jsval \<Rightarrow> bool" where
  "sendEmailConfirmation env orderData =
     (if \<not> resend_configured env \<or> \<not> truthy (getProp (getProp orderData ''customer'') ''email'') then False
      else if \<not> items_render orderData \<or> \<not> customer_mail_renders orderData then False
      else customer_send_ok env)"

text \<open>A notification the handler started, with the value its promise resolved to.\<close>

datatype notification = OwnerNotification bool | CustomerNotification bool

record request =
  req_method :: string
  x_forwarded_for :: "string option"
  remoteAddress :: "string option"
  body :: jsval

text \<open>
  The response: the status, and the JSON body when there is one (\<open>success\<close> is
  \<open>None\<close> for the empty answer to a preflight request).
\<close>

record response =
  status :: nat
  success :: "bool option"
  message :: string
  errors_r :: "string list"
  orderId_r :: jsval

definition respond :: "nat \<Rightarrow> bool \<Rightarrow> string \<Rightarrow> response" where
  "respond st ok msg = \<lparr> status = st, success = Some ok, message = msg, errors_r = [], orderId_r = JUndefined \<rparr>"

text \<open>\<^verbatim>\<open>req.headers['x-forwarded-for'] || req.connection.remoteAddress || 'unknown'\<close>\<close>

definition client_ip :: "request \<Rightarrow> string" where
  "client_ip req =
     (case x_forwarded_for req of
        Some h \<Rightarrow> if h \<noteq> [] then h
                  else (case remoteAddress req of Some a \<Rightarrow> if a \<noteq> [] then a else ''unknown''
                        | None \<Rightarrow> ''unknown'')
      | None \<Rightarrow> (case remoteAddress req of Some a \<Rightarrow> if a \<noteq> [] then a else ''unknown''
                  | None \<Rightarrow> ''unknown''))"

text \<open>
  The handler. Its state is the table of the rate limiter; it returns the response, the
  table and the notifications it started. It reads and writes no order store. After the
  notifications have settled it logs \<^verbatim>\<open>notifications[0].status\<close> and
  \<^verbatim>\<open>notifications[1].status\<close>: with no customer email the array has one element,
  \<open>notifications[1]\<close> is \<open>undefined\<close>, the read throws and the \<open>catch\<close> answers 500.
\<close>

definition handler ::
  "mail_env \<Rightarrow> int \<Rightarrow> request \<Rightarrow> rateLimitStore \<Rightarrow> response \<times> rateLimitStore \<times> notification list" where
  "handler env now req store =
     (if req_method req = ''OPTIONS''
      then (\<lparr> status = 200, success = None, message = [], errors_r = [], orderId_r = JUndefined \<rparr>,
            store, [])
      else if req_method req \<noteq> ''POST'' then (respond 405 False ''Method not allowed'', store, [])
      else
        (case isRateLimited (client_ip req) now store of
           (limited, store') \<Rightarrow>
             if limited
             then (respond 429 False ''Too many requests. Please try again later.'', store', [])
             else
               (case validateOrderData (body req) of
                  Inl e \<Rightarrow> (respond 500 False ''Failed to process order. Please try again.'', store', [])
                | Inr validation \<Rightarrow>
                    if \<not> isValid validation
                    then ((respond 400 False ''Invalid order data'')\<lparr> errors_r := errors validation \<rparr>,
                          store', [])
                    else
                      (let orderData = body req;
                           notifications =
                             [OwnerNotification (sendEmailToOwner env orderData)]
                             @ (if truthy (getProp (getProp orderData ''customer'') ''email'')
                                then [CustomerNotification (sendEmailConfirmation env orderData)]
                                else [])
                       in if length notifications < 2
                          then (respond 500 False ''Failed to process order. Please try again.'',
                                store', notifications)
                          else ((respond 200 True ''Order received successfully'')
                                  \<lparr> orderId_r := getProp orderData ''orderId'' \<rparr>,
                                store', notifications)))))"

text \<open>An order payload and a request for the examples.\<close>

definition example_order :: "jsval \<Rightarrow> jsval \<Rightarrow> jsval" where
  "example_order email items =
     JObj [(''orderId'', JStr ''ORD-20260212-001''),
           (''userId'', JStr ''user123''),
           (''customer'', JObj [(''name'', JStr ''Asha Patil''), (''phone'', JStr ''9876543210''),
                                (''address'', JStr ''4 Rambaugh Lane, Kalyan West''),
                                (''email'', email)]),
           (''items'', items),
           (''total'', JNum 1600)]"

definition ghee_line :: jsval where
  "ghee_line = JObj [(''productId'', JStr ''buffalo-ghee''), (''productName'', JStr ''Buffalo Ghee''),
                     (''quantity'', JNum 2), (''price'', JNum 800), (''unit'', JStr ''kg''),
                     (''subtotal'', JNum 1600)]"

definition post :: "jsval \<Rightarrow> request" where
  "post b = \<lparr> req_method = ''POST'', x_forwarded_for = Some ''203.0.113.7'', remoteAddress = None, body = b \<rparr>"

text \<open>
  The rules of the order validator as the specification words them, each with the message
  of its violation: the order identifier is not empty, the requester identifier is there,
  the customer block is there, there is at least one line item, the name, the phone and
  the address of the customer are present, the total is a positive number. ``Present''
  and ``not empty'' are read as truthy; the name of a customer block that is not there is
  not present.
\<close>

definition order_rules :: "jsval \<Rightarrow> (bool \<times> string) list" where
  "order_rules orderData =
     (let customer = getProp orderData ''customer'' in
      [(truthy (getProp orderData ''orderId''), ''Order ID is required''),
       (truthy (getProp orderData ''userId''), ''User ID is required''),
       (truthy customer, ''Customer details are required''),
       (\<exists>x xs. getProp orderData ''items'' = JArr (x # xs), ''Order must contain at least one item''),
       (truthy (getProp customer ''name''), ''Customer name is required''),
       (truthy (getProp customer ''phone''), ''Customer phone is required''),
       (truthy (getProp customer ''address''), ''Customer address is required''),
       (\<exists>n. getProp orderData ''total'' = JNum n \<and> 0 < n, ''Invalid order total'')])"

text \<open>
  The rules among them that stand when the customer block is not there: all but the three
  on the name, the phone and the address.
\<close>

definition rules_without_customer :: "jsval \<Rightarrow> (bool \<times> string) list" where
  "rules_without_customer orderData = take 4 (order_rules orderData) @ drop 7 (order_rules orderData)"

section \<open>js/utils.js and js/checkout.js: the checkout form\<close>

text \<open>
  The white space of \<open>String.prototype.trim\<close> and of \<open>\s\<close>, among the characters a
  \<open>char\<close> holds (up to U+00FF): tab, line feed, vertical tab, form feed, carriage return,
  space and no-break space.
\<close>

definition js_space :: "char \<Rightarrow> bool" where
  "js_space c = ((of_char c :: nat) \<in> {9, 10, 11, 12, 13, 32, 160})"

definition trim :: "string \<Rightarrow> string" where
  "trim s = rev (dropWhile js_space (rev (dropWhile js_space s)))"

definition digit :: "char \<Rightarrow> bool" where
  "digit c = (48 \<le> (of_char c :: nat) \<and> (of_char c :: nat) \<le> 57)"

text \<open>\<^verbatim>\<open>[6-9]\d{9}\<close> on a whole string.\<close>

definition mobile_digits :: "string \<Rightarrow> bool" where
  "mobile_digits s =
     (case s of [] \<Rightarrow> False
      | c # cs \<Rightarrow> 54 \<le> (of_char c :: nat) \<and> (of_char c :: nat) \<le> 57
                  \<and> length cs = 9 \<and> list_all digit cs)"

text \<open>\<^verbatim>\<open>PHONE_REGEX: /^(\+91|91)?[6-9]\d{9}$/\<close>\<close>

definition PHONE_REGEX_test :: "string \<Rightarrow> bool" where
  "PHONE_REGEX_test s =
     (mobile_digits s
      \<or> (take 3 s = ''+91'' \<and> mobile_digits (drop 3 s))
      \<or> (take 2 s = ''91'' \<and> mobile_digits (drop 2 s)))"

text \<open>
  \<^verbatim>\<open>EMAIL_REGEX: /^[^\s@]+@[^\s@]+\.[^\s@]+$/\<close>: no white space, one \<open>@\<close> with
  something before it, and after it a dot that is neither the first nor the last character.
\<close>

definition EMAIL_REGEX_test :: "string \<Rightarrow> bool" where
  "EMAIL_REGEX_test s =
     (let local = takeWhile (\<lambda>c. c \<noteq> CHR ''@'') s;
          rest = dropWhile (\<lambda>c. c \<noteq> CHR ''@'') s
      in \<not> list_ex js_space s \<and> local \<noteq> [] \<and> rest \<noteq> []
         \<and> CHR ''@'' \<notin> set (tl rest)
         \<and> CHR ''.'' \<in> set (butlast (tl (tl rest))))"

text \<open>
  A field of the form is a string or is absent (\<open>undefined\<close>). \<open>RegExp.test\<close> of an
  absent value tests the text \<open>undefined\<close>, which neither expression matches.
\<close>

record form_data =
  f_name :: "string option"
  f_phone :: "string option"
  f_email :: "string option"
  f_address :: "string option"
  f_deliverySlot :: "string option"
  f_landmark :: "string option"
  f_specialInstructions :: "string option"

fun js_of :: "string option \<Rightarrow> jsval" where
  "js_of None = JUndefined"
| "js_of (Some s) = JStr s"

definition validatePhone :: "string option \<Rightarrow> bool" where
  "validatePhone phone = (case phone of None \<Rightarrow> False | Some s \<Rightarrow> PHONE_REGEX_test s)"

definition validateEmail :: "string option \<Rightarrow> bool" where
  "validateEmail email = (case email of None \<Rightarrow> False | Some s \<Rightarrow> EMAIL_REGEX_test s)"

text \<open>\<^verbatim>\<open>!formData.name || formData.name.trim().length < 2\<close>, and the same test with 10.\<close>

definition too_short :: "string option \<Rightarrow> nat \<Rightarrow> bool" where
  "too_short field n =
     (case field of None \<Rightarrow> True | Some s \<Rightarrow> s = [] \<or> length (trim s) < n)"

definition validateCheckoutForm :: "form_data \<Rightarrow> validation" where
  "validateCheckoutForm formData =
     (let errors1 = (if too_short (f_name formData) 2 then [''Please enter your full name''] else []);
          errors2 = errors1 @ (if \<not> validatePhone (f_phone formData)
                               then [''Please enter a valid 10-digit mobile number''] else []);
          errors3 = errors2 @ (if truthy (js_of (f_email formData)) \<and> \<not> validateEmail (f_email formData)
                               then [''Please enter a valid email address''] else []);
          errors4 = errors3 @ (if too_short (f_address formData) 10
                               then [''Please enter a complete delivery address''] else []);
          errors5 = errors4 @ (if \<not> truthy (js_of (f_deliverySlot formData))
                               then [''Please select a delivery time slot''] else [])
      in \<lparr> isValid = (length errors5 = 0), errors = errors5 \<rparr>)"

section \<open>js/checkout.js: processCheckout\<close>

text \<open>
  The signed-in user: \<open>uid\<close>, and \<open>email\<close>, which the authentication provider may
  leave \<open>null\<close>.
\<close>

record user =
  u_uid :: string
  u_email :: jsval

text \<open>
  The state a checkout works on: the cart of the browser, the orders collection of the
  database, the table of the rate limiter of the server.
\<close>

record world =
  w_cart :: "cart_item list"
  w_orders :: "jsval list"
  w_limiter :: rateLimitStore

text \<open>
  What a checkout attempt meets outside the code: the result of \<open>fetchProducts\<close>, the
  identifier \<open>generateOrderId\<close> draws, the date, whether \<open>DatabaseService.createOrder\<close>,
  the \<open>fetch\<close> of \<open>submitOrder\<close> and \<open>DatabaseService.updateUser\<close> go through, and
  on the server the address the request comes from, the clock and the mail service, and
  the arithmetic of the engine.
\<close>

record checkout_env =
  e_fetched :: "product list option"
  e_orderId :: string
  e_createdAt :: string
  e_createOrder_ok :: bool
  e_network_ok :: bool
  e_updateUser_ok :: bool
  e_client_address :: "string option"
  e_server_now :: int
  e_mail :: mail_env
  e_arith :: arith

text \<open>
  The calls a checkout makes, in the order it makes them: the order-creation write with
  its outcome, the request to the endpoint, the notifications the endpoint starts, the
  update of the profile with its outcome, the clearing of the cart.
\<close>

datatype event =
    EvCreateOrder bool
  | EvSubmitOrder
  | EvNotification notification
  | EvUpdateUser bool
  | EvClearCart

text \<open>
  The errors \<open>processCheckout\<close> throws: \<^verbatim>\<open>new Error(validation.errors.join(', '))\<close>,
  \<^verbatim>\<open>new Error('Your cart is empty')\<close>, the error of a rejected \<open>fetchProducts\<close>, and
  \<^verbatim>\<open>new Error('Failed to process order. Please try again.')\<close> from the \<open>catch\<close>.
\<close>

datatype checkout_failure =
    FormInvalid "string list"
  | EmptyCart
  | CatalogUnavailable
  | OrderFailed

definition item_json :: "cart_line \<Rightarrow> jsval" where
  "item_json item =
     JObj [(''productId'', JStr (productId (cl_item item))),
           (''productName'', JStr (nameEnglish (cl_product item))),
           (''productNameHindi'', JStr (nameHindi (cl_product item))),
           (''quantity'', JNum (quantity (cl_item item))),
           (''price'', JNum (price (cl_product item))),
           (''unit'', JStr (unit_p (cl_product item))),
           (''subtotal'', JNum (cl_subtotal item))]"

definition build_order ::
  "checkout_env \<Rightarrow> form_data \<Rightarrow> user \<Rightarrow> cart_line list \<Rightarrow> totals \<Rightarrow> jsval" where
  "build_order env formData usr cartItems tot =
     JObj [(''orderId'', JStr (e_orderId env)),
           (''userId'', JStr (u_uid usr)),
           (''customer'',
              JObj [(''name'', JStr (sanitizeInput (js_of (f_name formData)))),
                    (''email'', if truthy (js_of (f_email formData))
                                then JStr (sanitizeInput (js_of (f_email formData)))
                                else u_email usr),
                    (''phone'', JStr (sanitizeInput (js_of (f_phone formData)))),
                    (''address'', JStr (sanitizeInput (js_of (f_address formData)))),
                    (''landmark'', if truthy (js_of (f_landmark formData))
                                   then JStr (sanitizeInput (js_of (f_landmark formData)))
                                   else JStr [])]),
           (''items'', JArr (map item_json cartItems)),
           (''deliverySlot'', js_of (f_deliverySlot formData)),
           (''specialInstructions'',
              if truthy (js_of (f_specialInstructions formData))
              then JStr (sanitizeInput (js_of (f_specialInstructions formData)))
              else JStr []),
           (''paymentMethod'', JStr ''Cash on Delivery''),
           (''subtotal'', JNum (subtotal tot)),
           (''deliveryCharge'', JNum (delivery tot)),
           (''total'', JNum (total tot)),
           (''status'', JStr ''pending''),
           (''createdAt'', JStr (e_createdAt env))]"

text \<open>
  The endpoint seen from the world: the handler runs on the table of the rate limiter and
  touches nothing else.
\<close>

definition submit_request ::
  "mail_env \<Rightarrow> int \<Rightarrow> request \<Rightarrow> world \<Rightarrow> response \<times> world \<times> notification list" where
  "submit_request mail now req w =
     (case handler mail now req (w_limiter w) of
        (resp, store', ns) \<Rightarrow> (resp, w\<lparr> w_limiter := store' \<rparr>, ns))"

text \<open>\<open>response.ok\<close>\<close>

definition response_ok :: "response \<Rightarrow> bool" where
  "response_ok resp = (200 \<le> status resp \<and> status resp \<le> 299)"

text \<open>
  The end of the \<open>try\<close> block, once \<open>submitOrder\<close> has returned: the profile is updated
  when the form has a phone, then the cart is cleared and the identifier returned. A
  rejected \<open>updateUser\<close> goes to the \<open>catch\<close>.
\<close>

definition finish_checkout ::
  "checkout_env \<Rightarrow> form_data \<Rightarrow> world \<Rightarrow> (checkout_failure + string) \<times> world \<times> event list" where
  "finish_checkout env formData w =
     (if truthy (js_of (f_phone formData))
      then (if e_updateUser_ok env
            then (Inr (e_orderId env), w\<lparr> w_cart := snd (clearCart (w_cart w)) \<rparr>,
                  [EvUpdateUser True, EvClearCart])
            else (Inl OrderFailed, w, [EvUpdateUser False]))
      else (Inr (e_orderId env), w\<lparr> w_cart := snd (clearCart (w_cart w)) \<rparr>, [EvClearCart]))"

text \<open>
  The \<open>try\<close> block: \<open>createOrder\<close> adds the order to the collection or rejects;
  \<open>submitOrder\<close> posts the order to the endpoint and throws when the \<open>fetch\<close> rejects
  or the response is not \<open>ok\<close>; every throw ends in the \<open>catch\<close>, which throws the
  one error.
\<close>

definition place_order ::
  "checkout_env \<Rightarrow> form_data \<Rightarrow> jsval \<Rightarrow> world \<Rightarrow> (checkout_failure + string) \<times> world \<times> event list" where
  "place_order env formData orderData w =
     (if \<not> e_createOrder_ok env then (Inl OrderFailed, w, [EvCreateOrder False])
      else
        (let w1 = w\<lparr> w_orders := w_orders w @ [orderData] \<rparr> in
         if \<not> e_network_ok env then (Inl OrderFailed, w1, [EvCreateOrder True, EvSubmitOrder])
         else
           (case submit_request (e_mail env) (e_server_now env)
                   \<lparr> req_method = ''POST'', x_forwarded_for = e_client_address env,
                     remoteAddress = None, body = orderData \<rparr> w1 of
              (resp, w2, ns) \<Rightarrow>
                if \<not> response_ok resp
                then (Inl OrderFailed, w2, [EvCreateOrder True, EvSubmitOrder] @ map EvNotification ns)
                else (case finish_checkout env formData w2 of
                        (res, w3, evs) \<Rightarrow>
                          (res, w3, [EvCreateOrder True, EvSubmitOrder] @ map EvNotification ns @ evs)))))"

definition processCheckout ::
  "config \<Rightarrow> checkout_env \<Rightarrow> form_data \<Rightarrow> user \<Rightarrow> world
     \<Rightarrow> (checkout_failure + string) \<times> world \<times> event list" where
  "processCheckout cfg env formData usr w =
     (let validation = validateCheckoutForm formData in
      if \<not> isValid validation then (Inl (FormInvalid (errors validation)), w, [])
      else if w_cart w = [] then (Inl EmptyCart, w, [])
      else
        (case e_fetched env of
           None \<Rightarrow> (Inl CatalogUnavailable, w, [])
         | Some products \<Rightarrow>
             (let cartItems = getCartWithDetails (e_arith env) products (w_cart w) in
              if length cartItems = 0 then (Inl EmptyCart, w, [])
              else
                (let tot = calculateTotal (e_arith env) cfg products (w_cart w);
                     orderData = build_order env formData usr cartItems tot
                 in place_order env formData orderData w))))"

text \<open>
  Reading a list of events: the number of order-creation writes, and whether every request
  to the endpoint and every notification comes after an order-creation write that
  succeeded (the flag says whether one has).
\<close>

fun is_create :: "event \<Rightarrow> bool" where
  "is_create (EvCreateOrder ok) = True"
| "is_create ev = False"

fun after_persist :: "bool \<Rightarrow> event list \<Rightarrow> bool" where
  "after_persist p [] = True"
| "after_persist p (EvCreateOrder ok # evs) = after_persist (p \<or> ok) evs"
| "after_persist p (EvSubmitOrder # evs) = (p \<and> after_persist p evs)"
| "after_persist p (EvNotification n # evs) = (p \<and> after_persist p evs)"
| "after_persist p (ev # evs) = after_persist p evs"

text \<open>A form, a user and surroundings for the examples.\<close>

definition example_form :: "string \<Rightarrow> form_data" where
  "example_form slot =
     \<lparr> f_name = Some ''Asha Patil'', f_phone = Some ''9876543210'',
       f_email = Some ''asha@example.com'', f_address = Some ''4 Rambaugh Lane, Kalyan West'',
       f_deliverySlot = Some slot, f_landmark = None, f_specialInstructions = None \<rparr>"

definition example_user :: user where
  "example_user = \<lparr> u_uid = ''user123'', u_email = JStr ''asha@example.com'' \<rparr>"

definition example_env :: "bool \<Rightarrow> checkout_env" where
  "example_env net =
     \<lparr> e_fetched = Some [ghee, milk], e_orderId = ''ORD-20260212-001'',
       e_createdAt = ''2026-02-12T10:05:00.000Z'', e_createOrder_ok = True,
       e_network_ok = net, e_updateUser_ok = True,
       e_client_address = Some ''203.0.113.7'', e_server_now = 1770890700000,
       e_mail = \<lparr> resend_configured = True, owner_send_ok = False, customer_send_ok = False \<rparr>,
       e_arith = exact_arith \<rparr>"

definition example_world :: "cart_item list \<Rightarrow> world" where
  "example_world c = \<lparr> w_cart = c, w_orders = [], w_limiter = Map.empty \<rparr>"

section \<open>Properties of sanitizeInput\<close>

lemma escapeChar_cases:
  "escapeChar c = ''&amp;'' \<or> escapeChar c = ''&lt;'' \<or> escapeChar c = ''&gt;''
   \<or> escapeChar c = ''&quot;'' \<or> escapeChar c = ''&#x27;'' \<or> escapeChar c = ''&#x2F;''
   \<or> (escapeChar c = [c] \<and> c \<noteq> CHR ''<'' \<and> c \<noteq> CHR ''>'' \<and> c \<noteq> CHR 0x22
        \<and> c \<noteq> CHR 0x27 \<and> c \<noteq> CHR ''/'')"
  unfolding escapeChar_def by presburger

lemma escapeChar_clean:
  "set (escapeChar c) \<inter> {CHR ''<'', CHR ''>'', CHR 0x22, CHR 0x27, CHR ''/''} = {}"
proof -
  let ?bad = "{CHR ''<'', CHR ''>'', CHR 0x22, CHR 0x27, CHR ''/''}"
  have 1: "set ''&amp;'' \<inter> ?bad = {}" by simp
  have 2: "set ''&lt;'' \<inter> ?bad = {}" by simp
  have 3: "set ''&gt;'' \<inter> ?bad = {}" by simp
  have 4: "set ''&quot;'' \<inter> ?bad = {}" by simp
  have 5: "set ''&#x27;'' \<inter> ?bad = {}" by simp
  have 6: "set ''&#x2F;'' \<inter> ?bad = {}" by simp
  have 7: "escapeChar c = [c] \<and> c \<noteq> CHR ''<'' \<and> c \<noteq> CHR ''>'' \<and> c \<noteq> CHR 0x22
        \<and> c \<noteq> CHR 0x27 \<and> c \<noteq> CHR ''/'' \<Longrightarrow> set (escapeChar c) \<inter> ?bad = {}"
    by simp
  from escapeChar_cases [of c] 1 2 3 4 5 6 7 show ?thesis
    by metis
qed

lemma sanitize_clean:
  "set (concat (map escapeChar s)) \<inter> {CHR ''<'', CHR ''>'', CHR 0x22, CHR 0x27, CHR ''/''} = {}"
proof (induction s)
  case Nil
  show ?case by simp
next
  case (Cons c cs)
  have "set (concat (map escapeChar (c # cs))) = set (escapeChar c) \<union> set (concat (map escapeChar cs))"
    by simp
  with Cons escapeChar_clean [of c] show ?case
    by (simp only: Int_Un_distrib2 Un_empty)
qed

lemma sanitizeInput_example:
  "sanitizeInput (JStr ''<script>alert(1)</script>'')
     = ''&lt;script&gt;alert(1)&lt;&#x2F;script&gt;''"
  by code_simp

text \<open>
  C10. \<open>sanitizeInput\<close> has a result on every value: on each kind of value that is not a
  string the result is the empty string, and on a string the result contains none of the
  characters \<open><\<close>, \<open>>\<close>, the double quote (0x22), the single quote (0x27) and \<open>/\<close>.
\<close>

theorem sanitizeInput_total_clean:
  "sanitizeInput JUndefined = [] \<and> sanitizeInput JNull = [] \<and> sanitizeInput (JBool b) = []
   \<and> sanitizeInput (JNum n) = [] \<and> sanitizeInput (JArr xs) = [] \<and> sanitizeInput (JObj kvs) = []
   \<and> set (sanitizeInput (JStr s)) \<inter> {CHR ''<'', CHR ''>'', CHR 0x22, CHR 0x27, CHR ''/''} = {}"
  using sanitize_clean [of s] by simp

section \<open>Properties of the rate limiter\<close>

text \<open>
  One check, read off the table: the instants kept are those strictly less than one hour
  before \<open>now\<close>; a blocked check leaves the table as it was.
\<close>

lemma isRateLimited_eq:
  "isRateLimited ip now store =
     (let recent = filter (\<lambda>t. now - windowMs < t) (recorded store ip)
      in if 5 \<le> length recent then (True, store)
         else (False, store(ip \<mapsto> recent @ [now])))"
proof -
  have f: "(\<lambda>t. now - t < windowMs) = (\<lambda>t. now - windowMs < t)"
    by (rule ext) arith
  show ?thesis
    by (cases "store ip") (simp_all add: isRateLimited_def recorded_def Let_def f maxRequests_def)
qed

lemma recorded_upd:
  "recorded (store(ip \<mapsto> xs)) ip' = (if ip' = ip then xs else recorded store ip')"
  by (simp add: recorded_def)

lemma filter_window_mono:
  fixes t now :: int
  assumes "t \<le> now"
  shows "filter (\<lambda>x. now - windowMs < x) (filter (\<lambda>x. t - windowMs < x) xs)
         = filter (\<lambda>x. now - windowMs < x) xs"
proof -
  have "\<And>x. now - windowMs < x \<Longrightarrow> t - windowMs < x"
    using assms by arith
  then show ?thesis
    by (induction xs) auto
qed

lemma run_checks_history:
  assumes "run_checks cs s0 = (bs, s)"
    and "sorted (map snd cs)"
    and "\<forall>t \<in> set (map snd cs). lo \<le> t \<and> t \<le> now"
    and "lo \<le> now"
    and "\<forall>n \<ge> lo. filter (\<lambda>x. n - windowMs < x) (recorded s0 ip) = filter (\<lambda>x. n - windowMs < x) h0"
  shows "filter (\<lambda>x. now - windowMs < x) (recorded s ip)
         = filter (\<lambda>x. now - windowMs < x) (h0 @ accepted ip cs bs)"
  using assms
proof (induction cs arbitrary: s0 bs s h0 lo)
  case Nil
  then show ?case by simp
next
  case (Cons c cs)
  obtain i t where c: "c = (i, t)" by (cases c)
  obtain b s1 where step: "isRateLimited i t s0 = (b, s1)" by (cases "isRateLimited i t s0")
  obtain bs' s' where rest: "run_checks cs s1 = (bs', s')" by (cases "run_checks cs s1")
  from Cons.prems(1) c step rest have bs: "bs = b # bs'" and s: "s = s'" by simp_all
  from Cons.prems(3) c have t: "lo \<le> t" "t \<le> now" by simp_all
  let ?h1 = "h0 @ (if i = ip \<and> \<not> b then [t] else [])"
  have inv: "\<forall>n \<ge> t. filter (\<lambda>x. n - windowMs < x) (recorded s1 ip) = filter (\<lambda>x. n - windowMs < x) ?h1"
  proof (intro allI impI)
    fix n assume n: "t \<le> n"
    with t have lo: "lo \<le> n" by simp
    from Cons.prems(5) lo have old: "filter (\<lambda>x. n - windowMs < x) (recorded s0 ip) = filter (\<lambda>x. n - windowMs < x) h0"
      by blast
    show "filter (\<lambda>x. n - windowMs < x) (recorded s1 ip) = filter (\<lambda>x. n - windowMs < x) ?h1"
    proof (cases "i = ip \<and> \<not> b")
      case True
      with step have "recorded s1 ip = filter (\<lambda>x. t - windowMs < x) (recorded s0 ip) @ [t]"
        by (auto simp: isRateLimited_eq Let_def recorded_upd split: if_splits)
      then show ?thesis using True old filter_window_mono [OF n] by simp
    next
      case False
      with step have "recorded s1 ip = recorded s0 ip"
        by (auto simp: isRateLimited_eq Let_def recorded_upd split: if_splits)
      then show ?thesis using False old by simp
    qed
  qed
  from Cons.prems(2) c have sorted': "sorted (map snd cs)" by simp
  from Cons.prems(2,3) c have bounds: "\<forall>u \<in> set (map snd cs). t \<le> u \<and> u \<le> now" by auto
  from Cons.IH [OF rest sorted' bounds t(2) inv]
  have "filter (\<lambda>x. now - windowMs < x) (recorded s' ip)
         = filter (\<lambda>x. now - windowMs < x) (?h1 @ accepted ip cs bs')" .
  then show ?case using c bs s by simp
qed

text \<open>
  C1, as the code has it. A check keeps the recorded instants that are less than one hour
  old (an instant exactly one hour old is dropped); with five or more left it blocks and
  the table is unchanged, otherwise it records \<open>now\<close> and accepts. In a run from the
  empty table with a clock that never goes back, a check is blocked exactly when five or
  more accepted checks of the same address are less than one hour old; blocked checks do
  not count. When every accepted check of the address is at least one hour old, the check
  is accepted.
\<close>

theorem rate_limit_sliding_window:
  assumes "sorted (map snd cs @ [now])"
    and "run_checks cs Map.empty = (bs, store)"
  shows "isRateLimited ip now st =
           (let recent = filter (\<lambda>t. now - windowMs < t) (recorded st ip)
            in if 5 \<le> length recent then (True, st)
               else (False, st(ip \<mapsto> recent @ [now])))
       \<and> fst (isRateLimited ip now store)
           = (5 \<le> length (filter (\<lambda>t. now - windowMs < t) (accepted ip cs bs)))
       \<and> ((\<forall>t \<in> set (accepted ip cs bs). t \<le> now - windowMs)
            \<longrightarrow> \<not> fst (isRateLimited ip now store))"
proof -
  from assms(1) have s: "sorted (map snd cs)" and b: "\<forall>t \<in> set (map snd cs). t \<le> now"
    by (simp_all add: sorted_append)
  define lo where "lo = (if cs = [] then now else snd (hd cs))"
  have lo: "lo \<le> now" using b by (cases cs) (simp_all add: lo_def)
  have lb: "\<forall>t \<in> set (map snd cs). lo \<le> t \<and> t \<le> now"
    using s b by (cases cs) (auto simp: lo_def)
  have e: "\<forall>n \<ge> lo. filter (\<lambda>x. n - windowMs < x) (recorded Map.empty ip) = filter (\<lambda>x. n - windowMs < x) []"
    by (simp add: recorded_def)
  from run_checks_history [OF assms(2) s lb lo e]
  have "filter (\<lambda>x. now - windowMs < x) (recorded store ip)
         = filter (\<lambda>x. now - windowMs < x) (accepted ip cs bs)" by simp
  then have iff: "fst (isRateLimited ip now store)
           = (5 \<le> length (filter (\<lambda>t. now - windowMs < t) (accepted ip cs bs)))"
    by (simp add: isRateLimited_eq Let_def)
  have gone: "(\<forall>t \<in> set (accepted ip cs bs). t \<le> now - windowMs)
            \<longrightarrow> \<not> fst (isRateLimited ip now store)"
  proof
    assume "\<forall>t \<in> set (accepted ip cs bs). t \<le> now - windowMs"
    then have "filter (\<lambda>t. now - windowMs < t) (accepted ip cs bs) = []"
      by (auto simp: filter_empty_conv)
    with iff show "\<not> fst (isRateLimited ip now store)" by simp
  qed
  from isRateLimited_eq [of ip now st] iff gone show ?thesis by blast
qed

theorem rate_limit_sliding_window_witness:
  "sorted (map snd (map (Pair ''1.2.3.4'') [0, 1, 2, 3, 4]) @ [3599999::int])
   \<and> run_checks (map (Pair ''1.2.3.4'') [0, 1, 2, 3, 4]) Map.empty
       = (replicate 5 False, snd (run_checks (map (Pair ''1.2.3.4'') [0, 1, 2, 3, 4]) Map.empty))
   \<and> accepted ''1.2.3.4'' (map (Pair ''1.2.3.4'') [0, 1, 2, 3, 4]) (replicate 5 False) = [0, 1, 2, 3, 4]
   \<and> fst (isRateLimited ''1.2.3.4'' 3599999
            (snd (run_checks (map (Pair ''1.2.3.4'') [0, 1, 2, 3, 4]) Map.empty)))
   \<and> \<not> fst (isRateLimited ''1.2.3.4'' 3600000
            (snd (run_checks (map (Pair ''1.2.3.4'') [0, 1, 2, 3, 4]) Map.empty)))"
proof -
  let ?cs = "map (Pair ''1.2.3.4'') [0, 1, 2, 3, 4::int]"
  let ?st = "snd (run_checks ?cs Map.empty)"
  have h1: "sorted (map snd ?cs @ [3599999::int])" by simp
  have h1': "sorted (map snd ?cs @ [3600000::int])" by simp
  have "fst (run_checks ?cs Map.empty) = replicate 5 False" by code_simp
  then have h2: "run_checks ?cs Map.empty = (replicate 5 False, ?st)"
    by (simp add: prod_eq_iff)
  have acc: "accepted ''1.2.3.4'' ?cs (replicate 5 False) = [0, 1, 2, 3, 4]" by code_simp
  from rate_limit_sliding_window [OF h1 h2, of "''1.2.3.4''" Map.empty]
  have a: "fst (isRateLimited ''1.2.3.4'' 3599999 ?st)"
    unfolding acc by (simp add: windowMs_def)
  from rate_limit_sliding_window [OF h1' h2, of "''1.2.3.4''" Map.empty]
  have b: "\<not> fst (isRateLimited ''1.2.3.4'' 3600000 ?st)"
    unfolding acc by (simp add: windowMs_def)
  from h1 h2 acc a b show ?thesis by blast
qed

text \<open>
  C1 as stated fails: after five accepted checks at instant 0, the checks at 3599999,
  3600000, ..., 3600004 are six requests of one address within five milliseconds; the first
  of them is blocked, so it is not recorded, and the sixth is accepted. The check at 3600000
  is accepted although the five recorded instants are exactly, not more than, one hour old.
\<close>

theorem sixth_request_in_window_accepted:
  "fst (run_checks (map (Pair ''1.2.3.4'')
          [0, 0, 0, 0, 0, 3599999, 3600000, 3600001, 3600002, 3600003, 3600004]) Map.empty)
     = [False, False, False, False, False, True, False, False, False, False, False]
   \<and> (3600004::int) - 3599999 < windowMs"
  by code_simp

section \<open>Properties of the cart totals\<close>

lemma getProductById_Some_iff:
  "(getProductById products pid \<noteq> None) = (pid \<in> id_p ` set products)"
  by (induction products) (auto simp: getProductById_def)

lemma getProductById_found:
  "getProductById products pid = Some p \<Longrightarrow> p \<in> set products \<and> id_p p = pid"
  by (induction products) (auto simp: getProductById_def split: if_splits)

lemma getCartWithDetails_items:
  "map cl_item (getCartWithDetails ar products cart)
     = filter (\<lambda>item. productId item \<in> id_p ` set products) cart"
proof (induction cart)
  case Nil
  show ?case by simp
next
  case (Cons item cart)
  show ?case
  proof (cases "getProductById products (productId item)")
    case None
    with getProductById_Some_iff [of products "productId item"]
    have "productId item \<notin> id_p ` set products" by simp
    with None Cons show ?thesis by simp
  next
    case (Some p)
    with getProductById_Some_iff [of products "productId item"]
    have "productId item \<in> id_p ` set products" by simp
    with Some Cons show ?thesis by simp
  qed
qed

lemma getCartWithDetails_lines:
  "l \<in> set (getCartWithDetails ar products cart) \<Longrightarrow>
     cl_product l \<in> set products
     \<and> id_p (cl_product l) = productId (cl_item l)
     \<and> find (\<lambda>p. id_p p = productId (cl_item l)) products = Some (cl_product l)
     \<and> cl_subtotal l = num_mul ar (price (cl_product l)) (quantity (cl_item l))"
proof (induction cart)
  case Nil
  then show ?case by simp
next
  case (Cons item cart)
  show ?case
  proof (cases "getProductById products (productId item)")
    case None
    with Cons show ?thesis by simp
  next
    case (Some p)
    from getProductById_found [OF Some] Some
    have "p \<in> set products" "id_p p = productId item"
      "find (\<lambda>q. id_p q = productId item) products = Some p"
      by (simp_all add: getProductById_def)
    with Cons Some show ?thesis by auto
  qed
qed

lemma calculateSubtotal_fold:
  "calculateSubtotal ar products cart
     = foldl (num_add ar) 0
         (map (\<lambda>l. num_mul ar (price (cl_product l)) (quantity (cl_item l)))
              (getCartWithDetails ar products cart))"
proof -
  have m: "map cl_subtotal (getCartWithDetails ar products cart)
        = map (\<lambda>l. num_mul ar (price (cl_product l)) (quantity (cl_item l)))
              (getCartWithDetails ar products cart)"
    using getCartWithDetails_lines [of _ ar products cart] by (intro map_cong) simp_all
  have c: "calculateSubtotal ar products cart
      = foldl (num_add ar) 0 (map cl_subtotal (getCartWithDetails ar products cart))"
    by (simp add: calculateSubtotal_def foldl_map)
  show ?thesis unfolding c m by (rule refl)
qed

lemma foldl_plus_sum:
  fixes a :: real
  shows "foldl (+) a xs = a + sum_list xs"
  by (induction xs arbitrary: a) simp_all

lemma calculateTotal_eq:
  "calculateTotal ar cfg products cart
     = \<lparr> subtotal = calculateSubtotal ar products cart, delivery = DELIVERY_CHARGE cfg,
         total = num_add ar (calculateSubtotal ar products cart) (DELIVERY_CHARGE cfg) \<rparr>"
  by (simp add: calculateTotal_def calculateDeliveryCharge_def Let_def)

text \<open>
  C2. For every cart and every catalog, whatever the rounding of the engine: the lines
  \<open>getCartWithDetails\<close> keeps are those of the cart items whose product identifier is
  that of a product of the catalog, in the order of the cart (the others are dropped);
  each line carries a product of the catalog with the identifier of its item (the first
  such product) and the product \<open>price \<times> quantity\<close> as the engine computes it; the
  subtotal of \<open>calculateTotal\<close> is the sum of these products over the lines kept, added
  from zero in the order of the cart with the \<open>+\<close> of the engine, which without
  rounding is \<open>\<Sum> price \<times> quantity\<close>; the delivery charge is the configured
  \<open>DELIVERY_CHARGE\<close> for every subtotal; the total is the subtotal plus the delivery
  charge.
\<close>

theorem computeTotals_correct:
  "map cl_item (getCartWithDetails ar products cart)
       = filter (\<lambda>item. productId item \<in> id_p ` set products) cart
   \<and> (\<forall>l \<in> set (getCartWithDetails ar products cart).
         cl_product l \<in> set products
         \<and> id_p (cl_product l) = productId (cl_item l)
         \<and> find (\<lambda>p. id_p p = productId (cl_item l)) products = Some (cl_product l)
         \<and> cl_subtotal l = num_mul ar (price (cl_product l)) (quantity (cl_item l)))
   \<and> subtotal (calculateTotal ar cfg products cart)
       = foldl (num_add ar) 0
           (map (\<lambda>l. num_mul ar (price (cl_product l)) (quantity (cl_item l)))
                (getCartWithDetails ar products cart))
   \<and> subtotal (calculateTotal exact_arith cfg products cart)
       = (\<Sum>l \<leftarrow> getCartWithDetails exact_arith products cart.
            price (cl_product l) * quantity (cl_item l))
   \<and> delivery (calculateTotal ar cfg products cart) = DELIVERY_CHARGE cfg
   \<and> calculateDeliveryCharge cfg s = DELIVERY_CHARGE cfg
   \<and> total (calculateTotal ar cfg products cart)
       = num_add ar (subtotal (calculateTotal ar cfg products cart)) (DELIVERY_CHARGE cfg)"
proof -
  have 1: "map cl_item (getCartWithDetails ar products cart)
       = filter (\<lambda>item. productId item \<in> id_p ` set products) cart"
    by (rule getCartWithDetails_items)
  have 2: "\<forall>l \<in> set (getCartWithDetails ar products cart).
         cl_product l \<in> set products
         \<and> id_p (cl_product l) = productId (cl_item l)
         \<and> find (\<lambda>p. id_p p = productId (cl_item l)) products = Some (cl_product l)
         \<and> cl_subtotal l = num_mul ar (price (cl_product l)) (quantity (cl_item l))"
    using getCartWithDetails_lines by blast
  have 3: "subtotal (calculateTotal ar cfg products cart)
       = foldl (num_add ar) 0
           (map (\<lambda>l. num_mul ar (price (cl_product l)) (quantity (cl_item l)))
                (getCartWithDetails ar products cart))"
    by (simp add: calculateTotal_eq calculateSubtotal_fold)
  have 4: "subtotal (calculateTotal exact_arith cfg products cart)
       = (\<Sum>l \<leftarrow> getCartWithDetails exact_arith products cart.
            price (cl_product l) * quantity (cl_item l))"
    by (simp add: calculateTotal_eq calculateSubtotal_fold exact_arith_def foldl_plus_sum)
  have 5: "delivery (calculateTotal ar cfg products cart) = DELIVERY_CHARGE cfg"
    by (simp add: calculateTotal_eq)
  have 6: "calculateDeliveryCharge cfg s = DELIVERY_CHARGE cfg"
    by (simp add: calculateDeliveryCharge_def)
  have 7: "total (calculateTotal ar cfg products cart)
       = num_add ar (subtotal (calculateTotal ar cfg products cart)) (DELIVERY_CHARGE cfg)"
    by (simp add: calculateTotal_eq)
  show ?thesis by (intro conjI) (rule 1, rule 2, rule 3, rule 4, rule 5, rule 6, rule 7)
qed

theorem computeTotals_correct_witness:
  "getCartWithDetails exact_arith [ghee, milk] [ghee_item 2, stale_item 3, milk_item 1]
     = [\<lparr> cl_item = ghee_item 2, cl_product = ghee, cl_subtotal = 1600 \<rparr>,
        \<lparr> cl_item = milk_item 1, cl_product = milk, cl_subtotal = 30 \<rparr>]
   \<and> subtotal (calculateTotal exact_arith CONFIG [ghee, milk] [ghee_item 2, stale_item 3, milk_item 1]) = 1630
   \<and> delivery (calculateTotal exact_arith CONFIG [ghee, milk] [ghee_item 2, stale_item 3, milk_item 1]) = 0
   \<and> total (calculateTotal exact_arith CONFIG [ghee, milk] [ghee_item 2, stale_item 3, milk_item 1]) = 1630
   \<and> calculateTotal exact_arith CONFIG [ghee] [ghee_item 2]
       = \<lparr> subtotal = 1600, delivery = 0, total = 1600 \<rparr>"
proof -
  let ?cart = "[ghee_item 2, stale_item 3, milk_item 1]"
  have g: "getCartWithDetails exact_arith [ghee, milk] ?cart
     = [\<lparr> cl_item = ghee_item 2, cl_product = ghee, cl_subtotal = 1600 \<rparr>,
        \<lparr> cl_item = milk_item 1, cl_product = milk, cl_subtotal = 30 \<rparr>]"
    by code_simp
  have g1: "getCartWithDetails exact_arith [ghee] [ghee_item 2]
     = [\<lparr> cl_item = ghee_item 2, cl_product = ghee, cl_subtotal = 1600 \<rparr>]"
    by code_simp
  have p: "price ghee * quantity (ghee_item 2) = 1600" "price milk * quantity (milk_item 1) = 30"
    by (simp_all add: ghee_def ghee_item_def milk_def milk_item_def)
  have d: "DELIVERY_CHARGE CONFIG = 0"
    by (simp add: CONFIG_def)
  have a: "num_add exact_arith x y = x + y" "num_mul exact_arith x y = x * y" for x y
    by (simp_all add: exact_arith_def)
  note T = computeTotals_correct [of exact_arith "[ghee, milk]" ?cart CONFIG 1630]
  note T3 = T [THEN conjunct2, THEN conjunct2, THEN conjunct1]
  note T5 = T [THEN conjunct2, THEN conjunct2, THEN conjunct2, THEN conjunct2, THEN conjunct1]
  note T7 = T [THEN conjunct2, THEN conjunct2, THEN conjunct2, THEN conjunct2, THEN conjunct2,
               THEN conjunct2]
  from T3 have t1: "subtotal (calculateTotal exact_arith CONFIG [ghee, milk] ?cart) = 1630"
    unfolding g by (simp add: p a)
  from T5 have t2: "delivery (calculateTotal exact_arith CONFIG [ghee, milk] ?cart) = 0"
    unfolding d .
  from T7 have t3: "total (calculateTotal exact_arith CONFIG [ghee, milk] ?cart) = 1630"
    unfolding t1 d by (simp add: a)
  note U = computeTotals_correct [of exact_arith "[ghee]" "[ghee_item 2]" CONFIG 1600]
  note U3 = U [THEN conjunct2, THEN conjunct2, THEN conjunct1]
  note U5 = U [THEN conjunct2, THEN conjunct2, THEN conjunct2, THEN conjunct2, THEN conjunct1]
  note U7 = U [THEN conjunct2, THEN conjunct2, THEN conjunct2, THEN conjunct2, THEN conjunct2,
               THEN conjunct2]
  from U3 have u1: "subtotal (calculateTotal exact_arith CONFIG [ghee] [ghee_item 2]) = 1600"
    unfolding g1 by (simp add: p a)
  from U5 have u2: "delivery (calculateTotal exact_arith CONFIG [ghee] [ghee_item 2]) = 0"
    unfolding d .
  from U7 have u3: "total (calculateTotal exact_arith CONFIG [ghee] [ghee_item 2]) = 1600"
    unfolding u1 d by (simp add: a)
  from u1 u2 u3 have u: "calculateTotal exact_arith CONFIG [ghee] [ghee_item 2]
       = \<lparr> subtotal = 1600, delivery = 0, total = 1600 \<rparr>"
    by (cases "calculateTotal exact_arith CONFIG [ghee] [ghee_item 2]") simp
  show ?thesis by (intro conjI) (rule g, rule t1, rule t2, rule t3, rule u)
qed


section \<open>Properties of the cart quantities\<close>

lemma update_first_positive:
  "\<forall>item \<in> set cart. 0 < quantity item \<Longrightarrow> (\<And>q. 0 < q \<Longrightarrow> 0 < f q)
   \<Longrightarrow> \<forall>item \<in> set (update_first pid f cart). 0 < quantity item"
  by (induction cart) auto

lemma update_first_find:
  "find (\<lambda>item. productId item = pid) cart = Some x \<Longrightarrow>
   map_option quantity (find (\<lambda>item. productId item = pid) (update_first pid f cart))
     = Some (f (quantity x))"
  by (induction cart) (auto split: if_splits)

lemma saveCart_positive:
  "\<forall>item \<in> set stored. 0 < quantity item \<Longrightarrow> \<forall>item \<in> set cart. 0 < quantity item
   \<Longrightarrow> \<forall>item \<in> set (snd (saveCart ok stored cart)). 0 < quantity item"
  by (simp add: saveCart_def)

lemma removeFromCart_positive:
  assumes "\<forall>item \<in> set cart. 0 < quantity item"
  shows "\<forall>item \<in> set (snd (removeFromCart ok cart pid)). 0 < quantity item"
proof -
  have "\<forall>item \<in> set (filter (\<lambda>item. productId item \<noteq> pid) cart). 0 < quantity item"
    using assms by simp
  with assms saveCart_positive [of cart "filter (\<lambda>item. productId item \<noteq> pid) cart" ok]
  show ?thesis by (simp add: removeFromCart_def Let_def)
qed

lemma updateCartItem_positive:
  assumes "\<forall>item \<in> set cart. 0 < quantity item"
  shows "\<forall>item \<in> set (snd (updateCartItem ok cart pid newQuantity)). 0 < quantity item"
proof (cases "newQuantity < 1")
  case True
  with removeFromCart_positive [OF assms, of ok pid] show ?thesis
    by (simp add: updateCartItem_def)
next
  case False
  then have "\<forall>item \<in> set (update_first pid (\<lambda>q. newQuantity) cart). 0 < quantity item"
    using update_first_positive [OF assms, of "\<lambda>q. newQuantity" pid] by simp
  with False assms saveCart_positive [of cart "update_first pid (\<lambda>q. newQuantity) cart" ok]
  show ?thesis by (simp add: updateCartItem_def split: option.splits)
qed

lemma addToCart_positive:
  assumes "\<forall>item \<in> set cart. 0 < quantity item" and "0 < qty"
  shows "\<forall>item \<in> set (snd (addToCart fetched ok now cart pid qty)). 0 < quantity item"
proof -
  have a: "\<forall>item \<in> set (update_first pid (\<lambda>q. q + qty) cart). 0 < quantity item"
    using update_first_positive [OF assms(1), of "\<lambda>q. q + qty" pid] assms(2) by simp
  have b: "\<forall>item \<in> set (cart @ [\<lparr> productId = pid, quantity = qty, addedAt = now \<rparr>]). 0 < quantity item"
    using assms by simp
  from assms(1) saveCart_positive [OF assms(1) a, of ok] saveCart_positive [OF assms(1) b, of ok]
  show ?thesis
    by (simp add: addToCart_def split: option.splits)
qed

lemma apply_cart_op_positive:
  "\<forall>item \<in> set cart. 0 < quantity item \<Longrightarrow> adds_positive op
   \<Longrightarrow> \<forall>item \<in> set (apply_cart_op op cart). 0 < quantity item"
proof (cases op)
  case (AddToCart fetched ok now pid qty)
  assume "\<forall>item \<in> set cart. 0 < quantity item" "adds_positive op"
  with AddToCart addToCart_positive [of cart qty fetched ok now pid] show ?thesis by simp
next
  case (UpdateCartItem ok pid q)
  assume "\<forall>item \<in> set cart. 0 < quantity item"
  with UpdateCartItem updateCartItem_positive [of cart ok pid q] show ?thesis by simp
next
  case (RemoveFromCart ok pid)
  assume "\<forall>item \<in> set cart. 0 < quantity item"
  with RemoveFromCart removeFromCart_positive [of cart ok pid] show ?thesis by simp
next
  case ClearCart
  then show ?thesis by (simp add: clearCart_def)
qed

lemma run_cart_ops_positive:
  "\<forall>item \<in> set cart. 0 < quantity item \<Longrightarrow> \<forall>op \<in> set ops. adds_positive op
   \<Longrightarrow> \<forall>item \<in> set (run_cart_ops ops cart). 0 < quantity item"
proof (induction ops arbitrary: cart)
  case Nil
  then show ?case by simp
next
  case (Cons op ops)
  from Cons.prems have "\<forall>item \<in> set (apply_cart_op op cart). 0 < quantity item"
    using apply_cart_op_positive [of cart op] by simp
  with Cons show ?case by simp
qed

lemma filter_same_length:
  assumes "length (filter P xs) = length xs"
  shows "\<forall>x \<in> set xs. P x"
proof -
  from sum_length_filter_compl [of P xs] assms have "length (filter (\<lambda>x. \<not> P x) xs) = 0"
    by arith
  then have "filter (\<lambda>x. \<not> P x) xs = []" by simp
  then show ?thesis by (simp add: filter_empty_conv)
qed

lemma removeFromCart_gone:
  "pid \<notin> productId ` set (snd (removeFromCart True cart pid))"
proof (cases "length (filter (\<lambda>item. productId item \<noteq> pid) cart) = length cart")
  case True
  from filter_same_length [OF True] have "pid \<notin> productId ` set cart" by auto
  with True show ?thesis by (simp add: removeFromCart_def Let_def)
next
  case False
  then show ?thesis by (auto simp: removeFromCart_def Let_def saveCart_def)
qed

text \<open>
  C3, as the code has it. \<open>updateCartItem\<close> with a quantity below 1 is
  \<open>removeFromCart\<close>, after which (the write going through) no item of the product is
  left; with a quantity of 1 or more and the product in the cart it stores that quantity as
  it is given, without an upper bound. Every quantity of the cart stays positive through
  every sequence of \<open>addToCart\<close> (adding a positive quantity), \<open>updateCartItem\<close>,
  \<open>removeFromCart\<close> and \<open>clearCart\<close> from the empty cart.
\<close>

theorem cart_quantity_invariant:
  assumes "\<forall>op \<in> set ops. adds_positive op"
  shows "(\<forall>item \<in> set (run_cart_ops ops []). 0 < quantity item)
    \<and> (newQuantity < 1 \<longrightarrow> updateCartItem ok cart pid newQuantity = removeFromCart ok cart pid)
    \<and> pid \<notin> productId ` set (snd (removeFromCart True cart pid))
    \<and> (\<not> newQuantity < 1 \<longrightarrow> pid \<in> productId ` set cart \<longrightarrow>
          fst (updateCartItem True cart pid newQuantity)
          \<and> map_option quantity
               (find (\<lambda>item. productId item = pid) (snd (updateCartItem True cart pid newQuantity)))
             = Some newQuantity)"
proof -
  have 1: "\<forall>item \<in> set (run_cart_ops ops []). 0 < quantity item"
    using run_cart_ops_positive [of "[]" ops] assms by simp
  have 2: "newQuantity < 1 \<longrightarrow> updateCartItem ok cart pid newQuantity = removeFromCart ok cart pid"
    by (simp add: updateCartItem_def)
  have 3: "\<not> newQuantity < 1 \<longrightarrow> pid \<in> productId ` set cart \<longrightarrow>
          fst (updateCartItem True cart pid newQuantity)
          \<and> map_option quantity
               (find (\<lambda>item. productId item = pid) (snd (updateCartItem True cart pid newQuantity)))
             = Some newQuantity"
  proof (intro impI)
    assume q: "\<not> newQuantity < 1" and "pid \<in> productId ` set cart"
    then obtain x where x: "find (\<lambda>item. productId item = pid) cart = Some x"
      by (cases "find (\<lambda>item. productId item = pid) cart") (auto simp: find_None_iff)
    from update_first_find [OF x, of "\<lambda>q. newQuantity"] q x
    show "fst (updateCartItem True cart pid newQuantity)
          \<and> map_option quantity
               (find (\<lambda>item. productId item = pid) (snd (updateCartItem True cart pid newQuantity)))
             = Some newQuantity"
      by (simp add: updateCartItem_def saveCart_def)
  qed
  have 4: "pid \<notin> productId ` set (snd (removeFromCart True cart pid))"
    by (rule removeFromCart_gone)
  show ?thesis
    by (intro conjI) (rule 1, rule 2, rule 4, rule 3)
qed


theorem cart_quantity_invariant_witness:
  "adds_positive (AddToCart (Some [ghee]) True ''d'' ''buffalo-ghee'' 1)
   \<and> adds_positive (UpdateCartItem True ''buffalo-ghee'' 3)
   \<and> map quantity (run_cart_ops [AddToCart (Some [ghee]) True ''d'' ''buffalo-ghee'' 1,
                                  UpdateCartItem True ''buffalo-ghee'' 3] []) = [3]
   \<and> (0::real) < 3
   \<and> updateCartItem True [ghee_item 2] ''buffalo-ghee'' 0 = (True, [])
   \<and> map_option quantity (find (\<lambda>item. productId item = ''buffalo-ghee'')
         (snd (updateCartItem True [ghee_item 2] ''buffalo-ghee'' 3))) = Some 3"
proof -
  let ?ops = "[AddToCart (Some [ghee]) True ''d'' ''buffalo-ghee'' 1,
               UpdateCartItem True ''buffalo-ghee'' 3]"
  have h: "\<forall>op \<in> set ?ops. adds_positive op" by simp
  have r: "map quantity (run_cart_ops ?ops []) = [3]"
    by (simp add: addToCart_def updateCartItem_def saveCart_def getProductById_def ghee_def)
  have m: "''buffalo-ghee'' \<in> productId ` set [ghee_item 2]"
    by (simp add: ghee_item_def)
  have rm: "removeFromCart True [ghee_item 2] ''buffalo-ghee'' = (True, [])"
    by (simp add: removeFromCart_def saveCart_def ghee_item_def)
  from cart_quantity_invariant [OF h, of 0 True "[ghee_item 2]" "''buffalo-ghee''"] rm
  have a: "updateCartItem True [ghee_item 2] ''buffalo-ghee'' 0 = (True, [])" by simp
  from cart_quantity_invariant [OF h, of 3 True "[ghee_item 2]" "''buffalo-ghee''"] m
  have b: "map_option quantity (find (\<lambda>item. productId item = ''buffalo-ghee'')
         (snd (updateCartItem True [ghee_item 2] ''buffalo-ghee'' 3))) = Some 3" by simp
  from r a b show ?thesis by simp
qed

text \<open>
  C3 as stated fails: \<open>updateCartItem\<close> stores 150 when it is given 150, and two
  \<open>addToCart\<close> calls of 60 leave a quantity of 120.
\<close>

theorem cart_quantity_exceeds_99:
  "updateCartItem True [ghee_item 1] ''buffalo-ghee'' 150 = (True, [ghee_item 150])
   \<and> run_cart_ops [AddToCart (Some [ghee]) True ''d'' ''buffalo-ghee'' 60,
                    AddToCart (Some [ghee]) True ''d'' ''buffalo-ghee'' 60] []
      = [\<lparr> productId = ''buffalo-ghee'', quantity = 120, addedAt = ''d'' \<rparr>]"
  by code_simp

section \<open>Properties of the order validator\<close>

lemma items_rule:
  "(\<not> truthy v \<or> \<not> isArray v \<or> length (elements v) = 0) = (\<not> (\<exists>x xs. v = JArr (x # xs)))"
proof (cases v)
  case (JArr ys)
  then show ?thesis by (cases ys) simp_all
qed simp_all

lemma total_rule: "invalid_total v = (\<not> (\<exists>n. v = JNum n \<and> 0 < n))"
  by (cases v) auto

lemma errors_shape:
  "(((((if \<not> a then [m1] else []) @ (if \<not> b then [m2] else [])) @ (if \<not> c then [m3] else []))
       @ (if \<not> i then [m4] else []))
      @ (if c then (if \<not> n then [m5] else []) @ (if \<not> p then [m6] else [])
                   @ (if \<not> d then [m7] else [])
         else []))
     @ (if \<not> t then [m8] else [])
   = map snd (filter (\<lambda>r. \<not> fst r)
       (if c then [(a, m1), (b, m2), (c, m3), (i, m4), (n, m5), (p, m6), (d, m7), (t, m8)]
        else take 4 [(a, m1), (b, m2), (c, m3), (i, m4), (n, m5), (p, m6), (d, m7), (t, m8)]
             @ drop 7 [(a, m1), (b, m2), (c, m3), (i, m4), (n, m5), (p, m6), (d, m7), (t, m8)]))"
  by (cases c) simp_all

lemma all_rules:
  "list_all fst [(a, m1), (b, m2), (c, m3), (i, m4), (n, m5), (p, m6), (d, m7), (t, m8)]
     = (a \<and> b \<and> c \<and> n \<and> p \<and> d \<and> i \<and> t)"
  by auto

lemma none_violated:
  "(length (map snd (filter (\<lambda>r. \<not> fst r)
       (if c then [(a, m1), (b, m2), (c, m3), (i, m4), (n, m5), (p, m6), (d, m7), (t, m8)]
        else take 4 [(a, m1), (b, m2), (c, m3), (i, m4), (n, m5), (p, m6), (d, m7), (t, m8)]
             @ drop 7 [(a, m1), (b, m2), (c, m3), (i, m4), (n, m5), (p, m6), (d, m7), (t, m8)]))) = 0)
   = list_all fst [(a, m1), (b, m2), (c, m3), (i, m4), (n, m5), (p, m6), (d, m7), (t, m8)]"
  by (cases c) auto

lemma validateOrderData_rules:
  assumes "\<not> nullish orderData"
  shows "validateOrderData orderData
     = Inr \<lparr> isValid = list_all fst (order_rules orderData),
             errors = map snd (filter (\<lambda>r. \<not> fst r)
                        (if truthy (getProp orderData ''customer'') then order_rules orderData
                         else rules_without_customer orderData)) \<rparr>"
proof -
  let ?i = "\<exists>x xs. getProp orderData ''items'' = JArr (x # xs)"
  let ?t = "\<exists>n. getProp orderData ''total'' = JNum n \<and> 0 < n"
  have i: "(\<not> truthy (getProp orderData ''items'') \<or> \<not> isArray (getProp orderData ''items'')
            \<or> length (elements (getProp orderData ''items'')) = 0) = (\<not> ?i)"
    by (rule items_rule)
  have t: "invalid_total (getProp orderData ''total'') = (\<not> ?t)"
    by (rule total_rule)
  show ?thesis
    unfolding validateOrderData_def rules_without_customer_def order_rules_def Let_def i t
    using assms
    by (simp only: if_False append_Nil errors_shape none_violated)
qed

lemma order_rules_hold:
  "list_all fst (order_rules orderData) \<longleftrightarrow>
          truthy (getProp orderData ''orderId'') \<and> truthy (getProp orderData ''userId'')
          \<and> truthy (getProp orderData ''customer'')
          \<and> truthy (getProp (getProp orderData ''customer'') ''name'')
          \<and> truthy (getProp (getProp orderData ''customer'') ''phone'')
          \<and> truthy (getProp (getProp orderData ''customer'') ''address'')
          \<and> (\<exists>x xs. getProp orderData ''items'' = JArr (x # xs))
          \<and> (\<exists>n. getProp orderData ''total'' = JNum n \<and> 0 < n)"
  unfolding order_rules_def Let_def by (rule all_rules)

lemma empty_items_reported:
  assumes "getProp orderData ''items'' = JArr []"
  shows "''Order must contain at least one item''
     \<in> set (map snd (filter (\<lambda>r. \<not> fst r)
                (if truthy (getProp orderData ''customer'') then order_rules orderData
                 else rules_without_customer orderData)))"
proof -
  let ?m = "(False, ''Order must contain at least one item'')"
  have a: "?m \<in> set (order_rules orderData)"
    using assms by (simp add: order_rules_def Let_def)
  have b: "?m \<in> set (rules_without_customer orderData)"
    using assms by (simp add: rules_without_customer_def order_rules_def Let_def)
  from a b have "?m \<in> set (filter (\<lambda>r. \<not> fst r)
                (if truthy (getProp orderData ''customer'') then order_rules orderData
                 else rules_without_customer orderData))" by simp
  then have "snd ?m \<in> snd ` set (filter (\<lambda>r. \<not> fst r)
                (if truthy (getProp orderData ''customer'') then order_rules orderData
                 else rules_without_customer orderData))" by (rule imageI)
  then show ?thesis by simp
qed

text \<open>
  C6, as the code has it. On a payload that is \<open>undefined\<close> or \<open>null\<close> the validator
  throws. On every other payload it returns, and \<open>isValid\<close> holds exactly when the
  order identifier and the requester identifier are truthy, the customer block is there
  with a truthy name, phone and address, the items are a non-empty array and the total is
  a number greater than 0. With the customer block there, the errors are the messages of
  all the violated rules, one for each, in the order of the rules; with no customer block,
  the rules on the name, the phone and the address are not examined and the errors are the
  messages of the other violated rules. An empty list of items gives the message
  \<open>Order must contain at least one item\<close>.
\<close>

theorem validateOrderData_correct:
  "validateOrderData orderData
     = (if nullish orderData then Inl TypeError
        else Inr \<lparr> isValid = list_all fst (order_rules orderData),
                   errors = map snd (filter (\<lambda>r. \<not> fst r)
                              (if truthy (getProp orderData ''customer'') then order_rules orderData
                               else rules_without_customer orderData)) \<rparr>)
   \<and> (list_all fst (order_rules orderData) \<longleftrightarrow>
          truthy (getProp orderData ''orderId'') \<and> truthy (getProp orderData ''userId'')
          \<and> truthy (getProp orderData ''customer'')
          \<and> truthy (getProp (getProp orderData ''customer'') ''name'')
          \<and> truthy (getProp (getProp orderData ''customer'') ''phone'')
          \<and> truthy (getProp (getProp orderData ''customer'') ''address'')
          \<and> (\<exists>x xs. getProp orderData ''items'' = JArr (x # xs))
          \<and> (\<exists>n. getProp orderData ''total'' = JNum n \<and> 0 < n))
   \<and> (getProp orderData ''items'' = JArr []
        \<longrightarrow> ''Order must contain at least one item''
             \<in> set (map snd (filter (\<lambda>r. \<not> fst r)
                        (if truthy (getProp orderData ''customer'') then order_rules orderData
                         else rules_without_customer orderData))))"
proof -
  have 1: "validateOrderData orderData
     = (if nullish orderData then Inl TypeError
        else Inr \<lparr> isValid = list_all fst (order_rules orderData),
                   errors = map snd (filter (\<lambda>r. \<not> fst r)
                              (if truthy (getProp orderData ''customer'') then order_rules orderData
                               else rules_without_customer orderData)) \<rparr>)"
  proof (cases "nullish orderData")
    case True
    then show ?thesis by (simp add: validateOrderData_def)
  next
    case False
    with validateOrderData_rules [OF False] show ?thesis by simp
  qed
  have 3: "getProp orderData ''items'' = JArr []
        \<longrightarrow> ''Order must contain at least one item''
             \<in> set (map snd (filter (\<lambda>r. \<not> fst r)
                        (if truthy (getProp orderData ''customer'') then order_rules orderData
                         else rules_without_customer orderData)))"
    using empty_items_reported by blast
  show ?thesis by (intro conjI) (rule 1, rule order_rules_hold, rule 3)
qed

lemma example_order_fields:
  "getProp (example_order email items) ''orderId'' = JStr ''ORD-20260212-001''"
  "getProp (example_order email items) ''userId'' = JStr ''user123''"
  "getProp (example_order email items) ''items'' = items"
  "getProp (example_order email items) ''total'' = JNum 1600"
  "getProp (getProp (example_order email items) ''customer'') ''name'' = JStr ''Asha Patil''"
  "getProp (getProp (example_order email items) ''customer'') ''phone'' = JStr ''9876543210''"
  "getProp (getProp (example_order email items) ''customer'') ''address'' = JStr ''4 Rambaugh Lane, Kalyan West''"
  "getProp (getProp (example_order email items) ''customer'') ''email'' = email"
  "truthy (getProp (example_order email items) ''customer'')"
  "\<not> nullish (example_order email items)"
  by (simp_all add: example_order_def)

theorem validateOrderData_correct_witness:
  "getProp (example_order JNull (JArr [])) ''items'' = JArr []
   \<and> validateOrderData (example_order JNull (JArr []))
       = Inr \<lparr> isValid = False, errors = [''Order must contain at least one item''] \<rparr>
   \<and> validateOrderData (example_order JNull (JArr [ghee_line]))
       = Inr \<lparr> isValid = True, errors = [] \<rparr>"
proof -
  let ?e = "example_order JNull (JArr [])"
  let ?g = "example_order JNull (JArr [ghee_line])"
  have i: "getProp ?e ''items'' = JArr []" by (rule example_order_fields)
  have r1: "map snd (filter (\<lambda>r. \<not> fst r) (order_rules ?e))
      = [''Order must contain at least one item'']"
    by (simp add: order_rules_def Let_def example_order_fields)
  have r2: "map snd (filter (\<lambda>r. \<not> fst r) (order_rules ?g)) = []"
    by (simp add: order_rules_def Let_def example_order_fields)
  have v1: "\<not> list_all fst (order_rules ?e)"
    by (simp add: order_rules_def Let_def example_order_fields)
  have v2: "list_all fst (order_rules ?g)"
    by (simp add: order_rules_def Let_def example_order_fields)
  note A = validateOrderData_correct [of ?e, THEN conjunct1]
  note B = validateOrderData_correct [of ?g, THEN conjunct1]
  from A have a: "validateOrderData ?e
       = Inr \<lparr> isValid = False, errors = [''Order must contain at least one item''] \<rparr>"
    by (simp only: example_order_fields if_True if_False r1 v1)
  from B have b: "validateOrderData ?g = Inr \<lparr> isValid = True, errors = [] \<rparr>"
    by (simp only: example_order_fields if_True if_False r2 v2)
  show ?thesis by (intro conjI) (rule i, rule a, rule b)
qed

text \<open>
  C6 as stated fails: on \<open>null\<close> the validator throws and the handler answers 500 with
  no list of errors; on the empty object all eight rules are violated and five messages are
  returned, none on the name, the phone or the address.
\<close>

theorem validator_throws_or_skips_customer_rules:
  "validateOrderData JNull = Inl TypeError
   \<and> status (fst (handler \<lparr> resend_configured = True, owner_send_ok = True, customer_send_ok = True \<rparr> 0 (post JNull) Map.empty)) = 500
   \<and> errors_r (fst (handler \<lparr> resend_configured = True, owner_send_ok = True, customer_send_ok = True \<rparr> 0 (post JNull) Map.empty)) = []
   \<and> validateOrderData (JObj [])
       = Inr \<lparr> isValid = False,
               errors = [''Order ID is required'', ''User ID is required'',
                         ''Customer details are required'',
                         ''Order must contain at least one item'', ''Invalid order total''] \<rparr>
   \<and> map snd (filter (Not \<circ> fst) (order_rules (JObj [])))
       = [''Order ID is required'', ''User ID is required'', ''Customer details are required'',
          ''Order must contain at least one item'', ''Customer name is required'',
          ''Customer phone is required'', ''Customer address is required'',
          ''Invalid order total'']"
proof -
  have 1: "validateOrderData JNull = Inl TypeError" by (simp add: validateOrderData_def)
  have 2: "status (fst (handler \<lparr> resend_configured = True, owner_send_ok = True, customer_send_ok = True \<rparr> 0 (post JNull) Map.empty)) = 500"
    by code_simp
  have 3: "errors_r (fst (handler \<lparr> resend_configured = True, owner_send_ok = True, customer_send_ok = True \<rparr> 0 (post JNull) Map.empty)) = []"
    by code_simp
  have 4: "validateOrderData (JObj [])
       = Inr \<lparr> isValid = False,
               errors = [''Order ID is required'', ''User ID is required'',
                         ''Customer details are required'',
                         ''Order must contain at least one item'', ''Invalid order total''] \<rparr>"
    by (simp add: validateOrderData_def)
  have 5: "map snd (filter (Not \<circ> fst) (order_rules (JObj [])))
       = [''Order ID is required'', ''User ID is required'', ''Customer details are required'',
          ''Order must contain at least one item'', ''Customer name is required'',
          ''Customer phone is required'', ''Customer address is required'',
          ''Invalid order total'']"
    by (simp add: order_rules_def)
  show ?thesis by (intro conjI) (rule 1, rule 2, rule 3, rule 4, rule 5)
qed


section \<open>Properties of the checkout form\<close>

lemma truthy_js_of: "truthy (js_of x) = (\<exists>s. x = Some s \<and> s \<noteq> [])"
  by (cases x) simp_all

lemma form_errors_empty:
  "(length (((((if a then [m1] else []) @ (if b then [m2] else [])) @ (if c then [m3] else []))
       @ (if d then [m4] else [])) @ (if e then [m5] else [])) = 0)
   = (\<not> a \<and> \<not> b \<and> \<not> c \<and> \<not> d \<and> \<not> e)"
  by simp

lemma form_errors_last:
  assumes "m5 \<noteq> m1" "m5 \<noteq> m2" "m5 \<noteq> m3" "m5 \<noteq> m4"
  shows "(m5 \<in> set (((((if a then [m1] else []) @ (if b then [m2] else [])) @ (if c then [m3] else []))
       @ (if d then [m4] else [])) @ (if e then [m5] else []))) = e"
  using assms by simp

lemma slot_message_distinct:
  "''Please select a delivery time slot'' \<noteq> ''Please enter your full name''"
  "''Please select a delivery time slot'' \<noteq> ''Please enter a valid 10-digit mobile number''"
  "''Please select a delivery time slot'' \<noteq> ''Please enter a valid email address''"
  "''Please select a delivery time slot'' \<noteq> ''Please enter a complete delivery address''"
  by simp_all

lemma validateCheckoutForm_isValid:
  "isValid (validateCheckoutForm formData) \<longleftrightarrow>
     \<not> too_short (f_name formData) 2 \<and> validatePhone (f_phone formData)
     \<and> (truthy (js_of (f_email formData)) \<longrightarrow> validateEmail (f_email formData))
     \<and> \<not> too_short (f_address formData) 10
     \<and> truthy (js_of (f_deliverySlot formData))"
  unfolding validateCheckoutForm_def Let_def validation.select_convs append_Nil form_errors_empty
  by blast

lemma validateCheckoutForm_slot_message:
  "(''Please select a delivery time slot'' \<in> set (errors (validateCheckoutForm formData)))
     = (\<not> truthy (js_of (f_deliverySlot formData)))"
  unfolding validateCheckoutForm_def Let_def validation.select_convs append_Nil
  by (rule form_errors_last [OF slot_message_distinct])

lemma example_form_checks:
  "\<not> too_short (f_name (example_form slot)) 2"
  "validatePhone (f_phone (example_form slot))"
  "validateEmail (f_email (example_form slot))"
  "\<not> too_short (f_address (example_form slot)) 10"
  by code_simp+

text \<open>
  C9, as the code has it. The form is valid exactly when the name and the address are long
  enough, the phone matches, an email that is given matches, and the delivery slot is a
  string that is not empty; the message of the slot is reported exactly when the slot is
  absent or empty. The slot is not compared with the configured options: any two slots
  that are not empty give the same result.
\<close>

theorem delivery_slot_presence_only:
  "(isValid (validateCheckoutForm formData) \<longleftrightarrow>
      \<not> too_short (f_name formData) 2 \<and> validatePhone (f_phone formData)
      \<and> (truthy (js_of (f_email formData)) \<longrightarrow> validateEmail (f_email formData))
      \<and> \<not> too_short (f_address formData) 10
      \<and> (\<exists>slot. f_deliverySlot formData = Some slot \<and> slot \<noteq> []))
   \<and> ((''Please select a delivery time slot'' \<in> set (errors (validateCheckoutForm formData)))
        = (\<not> (\<exists>slot. f_deliverySlot formData = Some slot \<and> slot \<noteq> [])))
   \<and> (slot1 \<noteq> [] \<longrightarrow> slot2 \<noteq> [] \<longrightarrow>
        validateCheckoutForm (formData\<lparr> f_deliverySlot := Some slot1 \<rparr>)
          = validateCheckoutForm (formData\<lparr> f_deliverySlot := Some slot2 \<rparr>))"
proof -
  have 1: "isValid (validateCheckoutForm formData) \<longleftrightarrow>
      \<not> too_short (f_name formData) 2 \<and> validatePhone (f_phone formData)
      \<and> (truthy (js_of (f_email formData)) \<longrightarrow> validateEmail (f_email formData))
      \<and> \<not> too_short (f_address formData) 10
      \<and> (\<exists>slot. f_deliverySlot formData = Some slot \<and> slot \<noteq> [])"
    using validateCheckoutForm_isValid [of formData] truthy_js_of [of "f_deliverySlot formData"]
    by simp
  have 2: "(''Please select a delivery time slot'' \<in> set (errors (validateCheckoutForm formData)))
        = (\<not> (\<exists>slot. f_deliverySlot formData = Some slot \<and> slot \<noteq> []))"
    using validateCheckoutForm_slot_message [of formData] truthy_js_of [of "f_deliverySlot formData"]
    by simp
  have 3: "slot1 \<noteq> [] \<longrightarrow> slot2 \<noteq> [] \<longrightarrow>
        validateCheckoutForm (formData\<lparr> f_deliverySlot := Some slot1 \<rparr>)
          = validateCheckoutForm (formData\<lparr> f_deliverySlot := Some slot2 \<rparr>)"
    by (simp add: validateCheckoutForm_def)
  show ?thesis by (intro conjI) (rule 1, rule 2, rule 3)
qed

theorem delivery_slot_presence_only_witness:
  "isValid (validateCheckoutForm (example_form ''Morning (7 AM - 10 AM)''))
   \<and> ''Please select a delivery time slot'' \<in> set (errors (validateCheckoutForm (example_form [])))
   \<and> ''Morning (7 AM - 10 AM)'' \<noteq> [] \<and> ''Whenever'' \<noteq> []
   \<and> validateCheckoutForm ((example_form [])\<lparr> f_deliverySlot := Some ''Morning (7 AM - 10 AM)'' \<rparr>)
       = validateCheckoutForm ((example_form [])\<lparr> f_deliverySlot := Some ''Whenever'' \<rparr>)"
proof -
  have s1: "f_deliverySlot (example_form ''Morning (7 AM - 10 AM)'') = Some ''Morning (7 AM - 10 AM)''"
    and s2: "f_deliverySlot (example_form []) = Some []"
    and e: "truthy (js_of (f_email (example_form slot)))" for slot
    by (simp_all add: example_form_def)
  from delivery_slot_presence_only [of "example_form ''Morning (7 AM - 10 AM)''"]
    example_form_checks [of "''Morning (7 AM - 10 AM)''"] s1
  have a: "isValid (validateCheckoutForm (example_form ''Morning (7 AM - 10 AM)''))" by simp
  from delivery_slot_presence_only [of "example_form []"] s2
  have b: "''Please select a delivery time slot'' \<in> set (errors (validateCheckoutForm (example_form [])))"
    by simp
  from delivery_slot_presence_only [of "example_form []" "''Morning (7 AM - 10 AM)''" "''Whenever''"]
  have c: "validateCheckoutForm ((example_form [])\<lparr> f_deliverySlot := Some ''Morning (7 AM - 10 AM)'' \<rparr>)
       = validateCheckoutForm ((example_form [])\<lparr> f_deliverySlot := Some ''Whenever'' \<rparr>)" by simp
  from a b c show ?thesis by simp
qed

text \<open>
  C9 as stated fails: a slot that is not among \<open>DELIVERY_SLOTS\<close> passes the validation.
\<close>

theorem unlisted_delivery_slot_accepted:
  "''Midnight (1 AM - 2 AM)'' \<noteq> []
   \<and> ''Midnight (1 AM - 2 AM)'' \<notin> set (DELIVERY_SLOTS CONFIG)
   \<and> f_deliverySlot (example_form ''Midnight (1 AM - 2 AM)'') = Some ''Midnight (1 AM - 2 AM)''
   \<and> validateCheckoutForm (example_form ''Midnight (1 AM - 2 AM)'') = \<lparr> isValid = True, errors = [] \<rparr>"
  by code_simp


section \<open>Properties of the handler\<close>

lemma handler_not_post:
  "req_method req = ''OPTIONS'' \<Longrightarrow> status (fst (handler mail now req store)) = 200"
  "req_method req \<noteq> ''OPTIONS'' \<Longrightarrow> req_method req \<noteq> ''POST''
     \<Longrightarrow> status (fst (handler mail now req store)) = 405"
  by (simp_all add: handler_def respond_def)

lemma handler_post:
  assumes "req_method req = ''POST''"
  shows "handler mail now req store =
     (if fst (isRateLimited (client_ip req) now store)
      then (respond 429 False ''Too many requests. Please try again later.'',
            snd (isRateLimited (client_ip req) now store), [])
      else
        (case validateOrderData (body req) of
           Inl e \<Rightarrow> (respond 500 False ''Failed to process order. Please try again.'',
                      snd (isRateLimited (client_ip req) now store), [])
         | Inr validation \<Rightarrow>
             if \<not> isValid validation
             then ((respond 400 False ''Invalid order data'')\<lparr> errors_r := errors validation \<rparr>,
                   snd (isRateLimited (client_ip req) now store), [])
             else if truthy (getProp (getProp (body req) ''customer'') ''email'')
             then ((respond 200 True ''Order received successfully'')
                      \<lparr> orderId_r := getProp (body req) ''orderId'' \<rparr>,
                   snd (isRateLimited (client_ip req) now store),
                   [OwnerNotification (sendEmailToOwner mail (body req)),
                    CustomerNotification (sendEmailConfirmation mail (body req))])
             else (respond 500 False ''Failed to process order. Please try again.'',
                   snd (isRateLimited (client_ip req) now store),
                   [OwnerNotification (sendEmailToOwner mail (body req))])))"
proof -
  have m: "req_method req \<noteq> ''OPTIONS''" using assms by simp
  obtain limited store' where l: "isRateLimited (client_ip req) now store = (limited, store')"
    by (cases "isRateLimited (client_ip req) now store")
  show ?thesis
    unfolding handler_def l Let_def using assms m
    by (simp split: sum.splits)
qed

lemma handler_post_status:
  assumes "req_method req = ''POST''"
    and "truthy (getProp (getProp (body req) ''customer'') ''email'')"
  shows "(status (fst (handler mail now req store)) = 200)
     = (\<not> fst (isRateLimited (client_ip req) now store)
        \<and> (\<exists>v. validateOrderData (body req) = Inr v \<and> isValid v))"
  unfolding handler_post [OF assms(1)] using assms(2)
  by (simp add: respond_def split: sum.splits)

lemma handler_status_range:
  "status (fst (handler mail now req store)) \<in> {200, 400, 405, 429, 500}"
proof (cases "req_method req = ''POST''")
  case True
  show ?thesis unfolding handler_post [OF True]
    by (simp add: respond_def split: sum.splits)
next
  case False
  with handler_not_post [of req mail now store] show ?thesis
    by (cases "req_method req = ''OPTIONS''") simp_all
qed

lemma handler_mail_independent:
  "fst (handler mail now req store) = fst (handler mail' now req store)
   \<and> fst (snd (handler mail now req store)) = fst (snd (handler mail' now req store))"
proof (cases "req_method req = ''POST''")
  case True
  show ?thesis unfolding handler_post [OF True]
    by (simp split: sum.splits)
next
  case False
  then show ?thesis by (simp add: handler_def)
qed

section \<open>Properties of processCheckout\<close>

lemma submit_request_eq:
  "submit_request mail now req w
     = (fst (handler mail now req (w_limiter w)),
        w\<lparr> w_limiter := fst (snd (handler mail now req (w_limiter w))) \<rparr>,
        snd (snd (handler mail now req (w_limiter w))))"
  by (simp add: submit_request_def split: prod.splits)

lemma submit_request_world:
  "w_orders (fst (snd (submit_request mail now req w))) = w_orders w
   \<and> w_cart (fst (snd (submit_request mail now req w))) = w_cart w"
  by (simp add: submit_request_eq)

lemma submit_request_mail_independent:
  "fst (submit_request mail now req w) = fst (submit_request mail' now req w)
   \<and> fst (snd (submit_request mail now req w)) = fst (snd (submit_request mail' now req w))"
  using handler_mail_independent [of mail now req "w_limiter w" mail']
  by (simp add: submit_request_eq)

lemma after_persist_True: "after_persist True evs"
proof (induction evs)
  case Nil
  show ?case by simp
next
  case (Cons ev evs)
  then show ?case by (cases ev) simp_all
qed

lemma finish_checkout_cases:
  "finish_checkout env formData w
     = (if truthy (js_of (f_phone formData)) \<and> \<not> e_updateUser_ok env
        then (Inl OrderFailed, w, [EvUpdateUser False])
        else (Inr (e_orderId env), w\<lparr> w_cart := [] \<rparr>,
              (if truthy (js_of (f_phone formData)) then [EvUpdateUser True] else []) @ [EvClearCart]))"
  by (simp add: finish_checkout_def clearCart_def)

lemma filter_create_notifications: "filter is_create (map EvNotification ns) = []"
  by (induction ns) simp_all

lemma place_order_shape:
  "place_order env formData orderData w
     = (if \<not> e_createOrder_ok env then (Inl OrderFailed, w, [EvCreateOrder False])
        else
          (let w1 = w\<lparr> w_orders := w_orders w @ [orderData] \<rparr>;
               req = \<lparr> req_method = ''POST'', x_forwarded_for = e_client_address env,
                       remoteAddress = None, body = orderData \<rparr>;
               sub = submit_request (e_mail env) (e_server_now env) req w1;
               w2 = fst (snd sub);
               sent = [EvCreateOrder True, EvSubmitOrder] @ map EvNotification (snd (snd sub))
           in if \<not> e_network_ok env then (Inl OrderFailed, w1, [EvCreateOrder True, EvSubmitOrder])
              else if \<not> response_ok (fst sub) then (Inl OrderFailed, w2, sent)
              else if truthy (js_of (f_phone formData)) \<and> \<not> e_updateUser_ok env
              then (Inl OrderFailed, w2, sent @ [EvUpdateUser False])
              else (Inr (e_orderId env), w2\<lparr> w_cart := [] \<rparr>,
                    sent @ (if truthy (js_of (f_phone formData)) then [EvUpdateUser True] else [])
                         @ [EvClearCart])))"
  by (simp add: place_order_def finish_checkout_cases Let_def split: prod.splits)

lemma place_order_events:
  "length (filter is_create (snd (snd (place_order env formData orderData w)))) \<le> 1
   \<and> after_persist False (snd (snd (place_order env formData orderData w)))
   \<and> length (w_orders (fst (snd (place_order env formData orderData w)))) \<le> length (w_orders w) + 1"
  unfolding place_order_shape Let_def
  by (simp add: filter_create_notifications after_persist_True submit_request_world)

lemma processCheckout_cases:
  "processCheckout cfg env formData usr w
     = (if \<not> isValid (validateCheckoutForm formData)
        then (Inl (FormInvalid (errors (validateCheckoutForm formData))), w, [])
        else if w_cart w = [] then (Inl EmptyCart, w, [])
        else case e_fetched env of
               None \<Rightarrow> (Inl CatalogUnavailable, w, [])
             | Some products \<Rightarrow>
                 if getCartWithDetails (e_arith env) products (w_cart w) = [] then (Inl EmptyCart, w, [])
                 else place_order env formData
                        (build_order env formData usr (getCartWithDetails (e_arith env) products (w_cart w))
                           (calculateTotal (e_arith env) cfg products (w_cart w))) w)"
  by (simp add: processCheckout_def Let_def split: option.splits)

text \<open>
  C4. In every checkout attempt the order-creation write is made at most once, whatever
  becomes of the request to the endpoint and of the notifications, and every request to
  the endpoint and every notification comes after an order-creation write that succeeded;
  the orders collection grows by at most one order.
\<close>

theorem checkout_order_created_once:
  "length (filter is_create (snd (snd (processCheckout cfg env formData usr w)))) \<le> 1
   \<and> after_persist False (snd (snd (processCheckout cfg env formData usr w)))
   \<and> length (w_orders (fst (snd (processCheckout cfg env formData usr w)))) \<le> length (w_orders w) + 1"
proof -
  have p: "length (filter is_create (snd (snd (place_order env formData od w)))) \<le> 1
   \<and> after_persist False (snd (snd (place_order env formData od w)))
   \<and> length (w_orders (fst (snd (place_order env formData od w)))) \<le> length (w_orders w) + 1" for od
    by (rule place_order_events)
  show ?thesis
    unfolding processCheckout_cases using p
    by (simp split: option.splits)
qed


lemma validatePhone_truthy: "validatePhone phone \<Longrightarrow> truthy (js_of phone)"
  by (cases phone) (auto simp: validatePhone_def PHONE_REGEX_test_def mobile_digits_def)

lemma place_order_result:
  assumes "e_createOrder_ok env" and "truthy (js_of (f_phone formData))"
  shows "w_orders (fst (snd (place_order env formData od w))) = w_orders w @ [od]
    \<and> ((fst (place_order env formData od w) = Inr (e_orderId env))
         = (e_network_ok env
            \<and> response_ok (fst (submit_request (e_mail env) (e_server_now env)
                  \<lparr> req_method = ''POST'', x_forwarded_for = e_client_address env,
                    remoteAddress = None, body = od \<rparr>
                  (w\<lparr> w_orders := w_orders w @ [od] \<rparr>)))
            \<and> e_updateUser_ok env))
    \<and> (if fst (place_order env formData od w) = Inr (e_orderId env)
        then w_cart (fst (snd (place_order env formData od w))) = []
        else fst (place_order env formData od w) = Inl OrderFailed
             \<and> w_cart (fst (snd (place_order env formData od w))) = w_cart w)"
  unfolding place_order_shape Let_def using assms
  by (simp add: submit_request_world)

lemma place_order_created:
  "EvCreateOrder True \<in> set (snd (snd (place_order env formData od w))) \<Longrightarrow> e_createOrder_ok env"
  unfolding place_order_shape Let_def by (simp split: if_splits)

lemma place_order_mail_independent:
  "fst (place_order (env\<lparr> e_mail := mail' \<rparr>) formData od w) = fst (place_order env formData od w)
   \<and> w_cart (fst (snd (place_order (env\<lparr> e_mail := mail' \<rparr>) formData od w)))
       = w_cart (fst (snd (place_order env formData od w)))"
proof -
  let ?req = "\<lparr> req_method = ''POST'', x_forwarded_for = e_client_address env,
                 remoteAddress = None, body = od \<rparr>"
  let ?w1 = "w\<lparr> w_orders := w_orders w @ [od] \<rparr>"
  have r: "fst (submit_request mail' (e_server_now env) ?req ?w1)
      = fst (submit_request (e_mail env) (e_server_now env) ?req ?w1)"
    using submit_request_mail_independent [of mail' "e_server_now env" ?req ?w1 "e_mail env"]
    by simp
  show ?thesis
    unfolding place_order_shape Let_def
    by (simp add: r submit_request_world)
qed

lemma build_order_mail_independent:
  "build_order (env\<lparr> e_mail := mail' \<rparr>) formData usr cartItems tot
     = build_order env formData usr cartItems tot"
  by (simp add: build_order_def)

lemma processCheckout_events_nonempty:
  assumes "snd (snd (processCheckout cfg env formData usr w)) \<noteq> []"
  shows "isValid (validateCheckoutForm formData) \<and> w_cart w \<noteq> []
     \<and> (\<exists>products. e_fetched env = Some products
          \<and> getCartWithDetails (e_arith env) products (w_cart w) \<noteq> []
          \<and> processCheckout cfg env formData usr w
              = place_order env formData
                  (build_order env formData usr (getCartWithDetails (e_arith env) products (w_cart w))
                     (calculateTotal (e_arith env) cfg products (w_cart w))) w)"
proof -
  from assms have v: "isValid (validateCheckoutForm formData)"
    unfolding processCheckout_cases by (simp split: if_splits)
  from assms v have c: "w_cart w \<noteq> []"
    unfolding processCheckout_cases by (simp split: if_splits)
  from assms v c obtain products where f: "e_fetched env = Some products"
    unfolding processCheckout_cases by (cases "e_fetched env") simp_all
  from assms v c f have g: "getCartWithDetails (e_arith env) products (w_cart w) \<noteq> []"
    unfolding processCheckout_cases by (simp split: if_splits)
  from v c f g have "processCheckout cfg env formData usr w
              = place_order env formData
                  (build_order env formData usr (getCartWithDetails (e_arith env) products (w_cart w))
                     (calculateTotal (e_arith env) cfg products (w_cart w))) w"
    unfolding processCheckout_cases by simp
  with v c f g show ?thesis by blast
qed

text \<open>
  C5, as the code has it. In a checkout attempt whose order-creation write succeeds, the
  order is in the collection; the attempt returns the order identifier exactly when the
  request to the endpoint goes through, its response is \<open>ok\<close> and the update of the
  profile succeeds, and then the cart is cleared; otherwise the attempt fails and the cart
  is kept. What the mail service does (whether it is configured, whether each send
  succeeds) changes neither the result of the attempt nor the cart.
\<close>

theorem checkout_result_after_persist:
  assumes "EvCreateOrder True \<in> set (snd (snd (processCheckout cfg env formData usr w)))"
  shows "\<exists>orderData.
      w_orders (fst (snd (processCheckout cfg env formData usr w))) = w_orders w @ [orderData]
    \<and> ((fst (processCheckout cfg env formData usr w) = Inr (e_orderId env))
         = (e_network_ok env
            \<and> response_ok (fst (submit_request (e_mail env) (e_server_now env)
                  \<lparr> req_method = ''POST'', x_forwarded_for = e_client_address env,
                    remoteAddress = None, body = orderData \<rparr>
                  (w\<lparr> w_orders := w_orders w @ [orderData] \<rparr>)))
            \<and> e_updateUser_ok env))
    \<and> (if fst (processCheckout cfg env formData usr w) = Inr (e_orderId env)
        then w_cart (fst (snd (processCheckout cfg env formData usr w))) = []
        else fst (processCheckout cfg env formData usr w) = Inl OrderFailed
             \<and> w_cart (fst (snd (processCheckout cfg env formData usr w))) = w_cart w)
    \<and> fst (processCheckout cfg (env\<lparr> e_mail := mail' \<rparr>) formData usr w)
         = fst (processCheckout cfg env formData usr w)
    \<and> w_cart (fst (snd (processCheckout cfg (env\<lparr> e_mail := mail' \<rparr>) formData usr w)))
         = w_cart (fst (snd (processCheckout cfg env formData usr w)))"
proof -
  from assms have ne: "snd (snd (processCheckout cfg env formData usr w)) \<noteq> []" by auto
  from processCheckout_events_nonempty [OF ne] obtain products
    where v: "isValid (validateCheckoutForm formData)"
      and c: "w_cart w \<noteq> []"
      and f: "e_fetched env = Some products"
      and g: "getCartWithDetails (e_arith env) products (w_cart w) \<noteq> []"
      and p: "processCheckout cfg env formData usr w
              = place_order env formData
                  (build_order env formData usr (getCartWithDetails (e_arith env) products (w_cart w))
                     (calculateTotal (e_arith env) cfg products (w_cart w))) w"
    by blast
  let ?od = "build_order env formData usr (getCartWithDetails (e_arith env) products (w_cart w))
                     (calculateTotal (e_arith env) cfg products (w_cart w))"
  from assms p have ok: "e_createOrder_ok env"
    using place_order_created [of env formData ?od w] by simp
  from v have ph: "truthy (js_of (f_phone formData))"
    using validateCheckoutForm_isValid [of formData] validatePhone_truthy by blast
  have p': "processCheckout cfg (env\<lparr> e_mail := mail' \<rparr>) formData usr w
      = place_order (env\<lparr> e_mail := mail' \<rparr>) formData ?od w"
    unfolding processCheckout_cases using v c f g
    by (simp add: build_order_mail_independent)
  from place_order_result [OF ok ph, of ?od w] place_order_mail_independent [of mail' env formData ?od w]
  show ?thesis
    unfolding p p' by (intro exI [of _ ?od]) simp
qed

theorem checkout_result_after_persist_witness:
  "EvCreateOrder True \<in> set (snd (snd (processCheckout CONFIG (example_env True)
       (example_form ''Morning (7 AM - 10 AM)'') example_user (example_world [ghee_item 2]))))
   \<and> fst (processCheckout CONFIG
         ((example_env True)\<lparr> e_mail := \<lparr> resend_configured = True, owner_send_ok = True,
                                           customer_send_ok = True \<rparr> \<rparr>)
         (example_form ''Morning (7 AM - 10 AM)'') example_user (example_world [ghee_item 2]))
       = Inr ''ORD-20260212-001''
   \<and> w_cart (fst (snd (processCheckout CONFIG
         ((example_env True)\<lparr> e_mail := \<lparr> resend_configured = True, owner_send_ok = True,
                                           customer_send_ok = True \<rparr> \<rparr>)
         (example_form ''Morning (7 AM - 10 AM)'') example_user (example_world [ghee_item 2]))))
       = []"
proof -
  let ?pc = "processCheckout CONFIG (example_env True)
       (example_form ''Morning (7 AM - 10 AM)'') example_user (example_world [ghee_item 2])"
  have h: "EvCreateOrder True \<in> set (snd (snd ?pc))" by code_simp
  have r: "fst ?pc = Inr ''ORD-20260212-001''" by code_simp
  have i: "e_orderId (example_env True) = ''ORD-20260212-001''" by (simp add: example_env_def)
  from checkout_result_after_persist [OF h,
      of "\<lparr> resend_configured = True, owner_send_ok = True, customer_send_ok = True \<rparr>"] r i h
  show ?thesis by auto
qed

text \<open>
  C5 as stated fails: the order-creation write succeeds, the request to the endpoint that
  dispatches the notifications does not go through, and the checkout fails with the order
  written and the cart kept.
\<close>

theorem checkout_fails_after_persist:
  "fst (processCheckout CONFIG (example_env False) (example_form ''Morning (7 AM - 10 AM)'')
          example_user (example_world [ghee_item 2])) = Inl OrderFailed
   \<and> snd (snd (processCheckout CONFIG (example_env False) (example_form ''Morning (7 AM - 10 AM)'')
          example_user (example_world [ghee_item 2]))) = [EvCreateOrder True, EvSubmitOrder]
   \<and> w_cart (fst (snd (processCheckout CONFIG (example_env False) (example_form ''Morning (7 AM - 10 AM)'')
          example_user (example_world [ghee_item 2])))) = [ghee_item 2]
   \<and> length (w_orders (fst (snd (processCheckout CONFIG (example_env False) (example_form ''Morning (7 AM - 10 AM)'')
          example_user (example_world [ghee_item 2]))))) = 1"
  by code_simp


lemma place_order_submitted:
  "EvSubmitOrder \<in> set (snd (snd (place_order env formData od w)))
   \<Longrightarrow> w_orders (fst (snd (place_order env formData od w))) = w_orders w @ [od]"
  unfolding place_order_shape Let_def
  by (simp add: submit_request_world split: if_splits)

lemma processCheckout_submitted:
  assumes "EvSubmitOrder \<in> set (snd (snd (processCheckout cfg env formData usr w)))"
  shows "length (w_orders (fst (snd (processCheckout cfg env formData usr w)))) = length (w_orders w) + 1"
proof -
  from assms have ne: "snd (snd (processCheckout cfg env formData usr w)) \<noteq> []" by auto
  from processCheckout_events_nonempty [OF ne] obtain products
    where p: "processCheckout cfg env formData usr w
              = place_order env formData
                  (build_order env formData usr (getCartWithDetails (e_arith env) products (w_cart w))
                     (calculateTotal (e_arith env) cfg products (w_cart w))) w"
    by blast
  from assms show ?thesis
    unfolding p using place_order_submitted by simp
qed

lemma handler_post_other:
  assumes "req_method req = ''POST''"
  shows "fst (isRateLimited (client_ip req) now store)
           \<Longrightarrow> status (fst (handler mail now req store)) = 429"
    and "\<not> fst (isRateLimited (client_ip req) now store) \<Longrightarrow> nullish (body req)
           \<Longrightarrow> status (fst (handler mail now req store)) = 500"
    and "\<not> fst (isRateLimited (client_ip req) now store)
           \<Longrightarrow> validateOrderData (body req) = Inr v \<Longrightarrow> \<not> isValid v
           \<Longrightarrow> status (fst (handler mail now req store)) = 400"
  unfolding handler_post [OF assms]
  by (simp_all add: respond_def validateOrderData_def)

lemma handler_200_only:
  assumes "status (fst (handler mail now req store)) = 200"
  shows "req_method req = ''OPTIONS''
     \<or> (req_method req = ''POST'' \<and> \<not> fst (isRateLimited (client_ip req) now store)
         \<and> (\<exists>v. validateOrderData (body req) = Inr v \<and> isValid v))"
proof (cases "req_method req = ''POST''")
  case True
  from assms show ?thesis
    unfolding handler_post [OF True] using True
    by (simp add: respond_def split: if_splits sum.splits)
next
  case False
  with assms handler_not_post(2) [of req mail now store] show ?thesis
    by (cases "req_method req = ''OPTIONS''") simp_all
qed

text \<open>
  C7, as the code has it. The endpoint writes no order: the orders collection is the same
  after a request as before, whatever the response. Its status is one of 200, 400, 405, 429
  and 500, and it is 200 only for an \<open>OPTIONS\<close> request or for a \<open>POST\<close> that passes
  the rate limit with a valid payload. Every \<open>OPTIONS\<close> request is answered 200, every
  other method than \<open>POST\<close> 405, a \<open>POST\<close> over the rate limit 429, a \<open>POST\<close>
  with no payload 500, a \<open>POST\<close> with an invalid payload 400, and a \<open>POST\<close> whose
  payload has a customer email is answered 200 exactly when it passes the rate limit and
  the payload is valid. The response does not depend on what the mail service does.
  Within a checkout the endpoint is requested only after the order was written.
\<close>

theorem endpoint_response:
  "w_orders (fst (snd (submit_request mail now req w))) = w_orders w
   \<and> status (fst (submit_request mail now req w)) \<in> {200, 400, 405, 429, 500}
   \<and> (status (fst (submit_request mail now req w)) = 200 \<longrightarrow>
        req_method req = ''OPTIONS''
        \<or> (req_method req = ''POST'' \<and> \<not> fst (isRateLimited (client_ip req) now (w_limiter w))
            \<and> (\<exists>v. validateOrderData (body req) = Inr v \<and> isValid v)))
   \<and> (req_method req = ''OPTIONS'' \<longrightarrow> status (fst (submit_request mail now req w)) = 200)
   \<and> (req_method req \<noteq> ''OPTIONS'' \<longrightarrow> req_method req \<noteq> ''POST''
        \<longrightarrow> status (fst (submit_request mail now req w)) = 405)
   \<and> (req_method req = ''POST'' \<longrightarrow> fst (isRateLimited (client_ip req) now (w_limiter w))
        \<longrightarrow> status (fst (submit_request mail now req w)) = 429)
   \<and> (req_method req = ''POST'' \<longrightarrow> \<not> fst (isRateLimited (client_ip req) now (w_limiter w))
        \<longrightarrow> nullish (body req) \<longrightarrow> status (fst (submit_request mail now req w)) = 500)
   \<and> (req_method req = ''POST'' \<longrightarrow> \<not> fst (isRateLimited (client_ip req) now (w_limiter w))
        \<longrightarrow> (\<exists>v. validateOrderData (body req) = Inr v \<and> \<not> isValid v)
        \<longrightarrow> status (fst (submit_request mail now req w)) = 400)
   \<and> (req_method req = ''POST'' \<longrightarrow> truthy (getProp (getProp (body req) ''customer'') ''email'') \<longrightarrow>
        (status (fst (submit_request mail now req w)) = 200)
          = (\<not> fst (isRateLimited (client_ip req) now (w_limiter w))
             \<and> (\<exists>v. validateOrderData (body req) = Inr v \<and> isValid v)))
   \<and> fst (submit_request mail now req w) = fst (submit_request mail' now req w)
   \<and> (EvSubmitOrder \<in> set (snd (snd (processCheckout cfg env formData usr w0)))
        \<longrightarrow> length (w_orders (fst (snd (processCheckout cfg env formData usr w0))))
              = length (w_orders w0) + 1)"
proof -
  have 1: "w_orders (fst (snd (submit_request mail now req w))) = w_orders w"
    by (simp add: submit_request_world)
  have 2: "status (fst (submit_request mail now req w)) \<in> {200, 400, 405, 429, 500}"
    unfolding submit_request_eq fst_conv by (rule handler_status_range)
  have 3: "status (fst (submit_request mail now req w)) = 200 \<longrightarrow>
        req_method req = ''OPTIONS''
        \<or> (req_method req = ''POST'' \<and> \<not> fst (isRateLimited (client_ip req) now (w_limiter w))
            \<and> (\<exists>v. validateOrderData (body req) = Inr v \<and> isValid v))"
    unfolding submit_request_eq fst_conv using handler_200_only by blast
  have 4: "req_method req = ''OPTIONS'' \<longrightarrow> status (fst (submit_request mail now req w)) = 200"
    unfolding submit_request_eq fst_conv using handler_not_post(1) by blast
  have 5: "req_method req \<noteq> ''OPTIONS'' \<longrightarrow> req_method req \<noteq> ''POST''
        \<longrightarrow> status (fst (submit_request mail now req w)) = 405"
    unfolding submit_request_eq fst_conv using handler_not_post(2) by blast
  have 6: "req_method req = ''POST'' \<longrightarrow> fst (isRateLimited (client_ip req) now (w_limiter w))
        \<longrightarrow> status (fst (submit_request mail now req w)) = 429"
    unfolding submit_request_eq fst_conv using handler_post_other(1) by blast
  have 7: "req_method req = ''POST'' \<longrightarrow> \<not> fst (isRateLimited (client_ip req) now (w_limiter w))
        \<longrightarrow> nullish (body req) \<longrightarrow> status (fst (submit_request mail now req w)) = 500"
    unfolding submit_request_eq fst_conv using handler_post_other(2) by blast
  have 8: "req_method req = ''POST'' \<longrightarrow> \<not> fst (isRateLimited (client_ip req) now (w_limiter w))
        \<longrightarrow> (\<exists>v. validateOrderData (body req) = Inr v \<and> \<not> isValid v)
        \<longrightarrow> status (fst (submit_request mail now req w)) = 400"
    unfolding submit_request_eq fst_conv using handler_post_other(3) by blast
  have 9: "req_method req = ''POST'' \<longrightarrow> truthy (getProp (getProp (body req) ''customer'') ''email'') \<longrightarrow>
        (status (fst (submit_request mail now req w)) = 200)
          = (\<not> fst (isRateLimited (client_ip req) now (w_limiter w))
             \<and> (\<exists>v. validateOrderData (body req) = Inr v \<and> isValid v))"
    unfolding submit_request_eq fst_conv using handler_post_status by blast
  have 10: "fst (submit_request mail now req w) = fst (submit_request mail' now req w)"
    using submit_request_mail_independent by blast
  have 11: "EvSubmitOrder \<in> set (snd (snd (processCheckout cfg env formData usr w0)))
        \<longrightarrow> length (w_orders (fst (snd (processCheckout cfg env formData usr w0))))
              = length (w_orders w0) + 1"
    using processCheckout_submitted by blast
  show ?thesis
    by (intro conjI) (rule 1, rule 2, rule 3, rule 4, rule 5, rule 6, rule 7, rule 8, rule 9,
        rule 10, rule 11)
qed

theorem endpoint_response_witness:
  "req_method (post (example_order (JStr ''asha@example.com'') (JArr [ghee_line]))) = ''POST''
   \<and> truthy (getProp (getProp (body (post (example_order (JStr ''asha@example.com'') (JArr [ghee_line]))))
                 ''customer'') ''email'')
   \<and> \<not> fst (isRateLimited (client_ip (post (example_order (JStr ''asha@example.com'') (JArr [ghee_line]))))
               1770890700000 (w_limiter (example_world [])))
   \<and> validateOrderData (body (post (example_order (JStr ''asha@example.com'') (JArr [ghee_line]))))
       = Inr \<lparr> isValid = True, errors = [] \<rparr>
   \<and> status (fst (submit_request (e_mail (example_env True)) 1770890700000
         (post (example_order (JStr ''asha@example.com'') (JArr [ghee_line]))) (example_world []))) = 200
   \<and> validateOrderData (body (post (example_order (JStr ''asha@example.com'') (JArr []))))
       = Inr \<lparr> isValid = False, errors = [''Order must contain at least one item''] \<rparr>
   \<and> status (fst (submit_request (e_mail (example_env True)) 1770890700000
         (post (example_order (JStr ''asha@example.com'') (JArr []))) (example_world []))) = 400
   \<and> nullish (body (post JNull))
   \<and> status (fst (submit_request (e_mail (example_env True)) 1770890700000
         (post JNull) (example_world []))) = 500
   \<and> status (fst (submit_request (e_mail (example_env True)) 1770890700000
         ((post JNull)\<lparr> req_method := ''GET'' \<rparr>) (example_world []))) = 405
   \<and> status (fst (submit_request (e_mail (example_env True)) 1770890700000
         ((post JNull)\<lparr> req_method := ''OPTIONS'' \<rparr>) (example_world []))) = 200
   \<and> EvSubmitOrder \<in> set (snd (snd (processCheckout CONFIG (example_env True)
         (example_form ''Evening (5 PM - 8 PM)'') example_user (example_world [ghee_item 2]))))
   \<and> length (w_orders (fst (snd (processCheckout CONFIG (example_env True)
         (example_form ''Evening (5 PM - 8 PM)'') example_user (example_world [ghee_item 2]))))) = 1"
proof -
  let ?req = "post (example_order (JStr ''asha@example.com'') (JArr [ghee_line]))"
  let ?bad = "post (example_order (JStr ''asha@example.com'') (JArr []))"
  let ?m = "e_mail (example_env True)"
  let ?f = "example_form ''Evening (5 PM - 8 PM)''"
  let ?w = "example_world [ghee_item 2]"
  have m: "req_method ?req = ''POST''" "req_method ?bad = ''POST''" "req_method (post JNull) = ''POST''"
    by (simp_all add: post_def)
  have g: "req_method ((post JNull)\<lparr> req_method := ''GET'' \<rparr>) \<noteq> ''OPTIONS''"
    "req_method ((post JNull)\<lparr> req_method := ''GET'' \<rparr>) \<noteq> ''POST''"
    "req_method ((post JNull)\<lparr> req_method := ''OPTIONS'' \<rparr>) = ''OPTIONS''"
    by simp_all
  have e: "truthy (getProp (getProp (body ?req) ''customer'') ''email'')" by code_simp
  have l: "\<not> fst (isRateLimited (client_ip ?req) 1770890700000 (w_limiter (example_world [])))"
    "\<not> fst (isRateLimited (client_ip ?bad) 1770890700000 (w_limiter (example_world [])))"
    "\<not> fst (isRateLimited (client_ip (post JNull)) 1770890700000 (w_limiter (example_world [])))"
    by code_simp+
  have v: "validateOrderData (body ?req) = Inr \<lparr> isValid = True, errors = [] \<rparr>" by code_simp
  have b: "validateOrderData (body ?bad)
       = Inr \<lparr> isValid = False, errors = [''Order must contain at least one item''] \<rparr>"
    by code_simp
  have n: "nullish (body (post JNull))" by (simp add: post_def)
  have s: "EvSubmitOrder \<in> set (snd (snd (processCheckout CONFIG (example_env True) ?f example_user ?w)))"
    by code_simp
  have o: "length (w_orders ?w) = 0" by (simp add: example_world_def)
  from endpoint_response [of ?m 1770890700000 ?req "example_world []" ?m CONFIG "example_env True"
      ?f example_user ?w] m e l v s o
  have a1: "status (fst (submit_request ?m 1770890700000 ?req (example_world []))) = 200"
    and a5: "length (w_orders (fst (snd (processCheckout CONFIG (example_env True) ?f example_user ?w)))) = 1"
    by simp_all
  from endpoint_response [of ?m 1770890700000 ?bad "example_world []" ?m CONFIG "example_env True"
      ?f example_user ?w] m l b
  have a2: "status (fst (submit_request ?m 1770890700000 ?bad (example_world []))) = 400"
    by simp
  from endpoint_response [of ?m 1770890700000 "post JNull" "example_world []" ?m CONFIG "example_env True"
      ?f example_user ?w] m l n
  have a3: "status (fst (submit_request ?m 1770890700000 (post JNull) (example_world []))) = 500"
    by simp
  from endpoint_response [of ?m 1770890700000 "(post JNull)\<lparr> req_method := ''GET'' \<rparr>"
      "example_world []" ?m CONFIG "example_env True" ?f example_user ?w] g
  have a4: "status (fst (submit_request ?m 1770890700000
         ((post JNull)\<lparr> req_method := ''GET'' \<rparr>) (example_world []))) = 405"
    by simp
  from endpoint_response [of ?m 1770890700000 "(post JNull)\<lparr> req_method := ''OPTIONS'' \<rparr>"
      "example_world []" ?m CONFIG "example_env True" ?f example_user ?w] g
  have a6: "status (fst (submit_request ?m 1770890700000
         ((post JNull)\<lparr> req_method := ''OPTIONS'' \<rparr>) (example_world []))) = 200"
    by simp
  show ?thesis
    by (intro conjI) (rule m(1), rule e, rule l(1), rule v, rule a1, rule b, rule a2, rule n,
        rule a3, rule a4, rule a6, rule s, rule a5)
qed

text \<open>
  C7 as stated fails: a valid order posted to the endpoint is answered 200 while the
  orders collection is empty before and after the request, and both notifications are sent.
\<close>

theorem endpoint_ok_without_persistence:
  "status (fst (submit_request \<lparr> resend_configured = True, owner_send_ok = True, customer_send_ok = True \<rparr>
       1770890700000 (post (example_order (JStr ''asha@example.com'') (JArr [ghee_line])))
       (example_world []))) = 200
  \<and> w_orders (example_world []) = []
  \<and> w_orders (fst (snd (submit_request \<lparr> resend_configured = True, owner_send_ok = True, customer_send_ok = True \<rparr>
       1770890700000 (post (example_order (JStr ''asha@example.com'') (JArr [ghee_line])))
       (example_world [])))) = []
  \<and> snd (snd (submit_request \<lparr> resend_configured = True, owner_send_ok = True, customer_send_ok = True \<rparr>
       1770890700000 (post (example_order (JStr ''asha@example.com'') (JArr [ghee_line])))
       (example_world []))) = [OwnerNotification True, CustomerNotification True]"
  by code_simp







end
